theory Spec2Isabelle
  imports Main "HOL-Library.Word" "HOL-Library.AList"
begin

section \<open>Regular expressions of the validation schema\<close>

text \<open>
  The schema of \<^verbatim>\<open>middleware/validation.js\<close> uses three regular-expression literals.
  They are embedded as syntax trees and run by a backtracking matcher, so that each
  literal can be read off its tree.

  A JavaScript string is a sequence of 16-bit code units, and its \<^verbatim>\<open>.length\<close> is the
  \<^const>\<open>length\<close> of the sequence.  None of the literals has the \<^verbatim>\<open>u\<close> flag, so the
  patterns are matched code unit by code unit.  A string that the sources or the examples
  write out holds ASCII only and is given as \<open>lit ''...''\<close>.  Field names and message
  texts are never matched against a pattern and stay of type \<^typ>\<open>string\<close>.
\<close>

type_synonym code_unit = "16 word"

type_synonym js_string = "code_unit list"

definition lit :: "string \<Rightarrow> js_string" where
  "lit s = map of_char s"

type_synonym char_class = "code_unit \<Rightarrow> bool"

definition cls_lower :: char_class where         \<comment> \<open>\<^verbatim>\<open>[a-z]\<close>\<close>
  "cls_lower c \<longleftrightarrow> of_char CHR ''a'' \<le> uint c \<and> uint c \<le> of_char CHR ''z''"

definition cls_upper :: char_class where         \<comment> \<open>\<^verbatim>\<open>[A-Z]\<close>\<close>
  "cls_upper c \<longleftrightarrow> of_char CHR ''A'' \<le> uint c \<and> uint c \<le> of_char CHR ''Z''"

definition cls_digit :: char_class where         \<comment> \<open>\<^verbatim>\<open>\d\<close> and \<^verbatim>\<open>[0-9]\<close>\<close>
  "cls_digit c \<longleftrightarrow> of_char CHR ''0'' \<le> uint c \<and> uint c \<le> of_char CHR ''9''"

definition cls_special :: char_class where       \<comment> \<open>\<^verbatim>\<open>[@$!%*?&]\<close>\<close>
  "cls_special c \<longleftrightarrow> uint c \<in> of_char ` set ''@$!%*?&''"

definition cls_space :: char_class where
  \<comment> \<open>\<^verbatim>\<open>\s\<close>: the white space and the line terminators of ECMAScript, that is U+0009 to
      U+000D, U+0020, U+00A0, U+1680, U+2000 to U+200A, U+2028, U+2029, U+202F, U+205F,
      U+3000 and U+FEFF\<close>
  "cls_space c \<longleftrightarrow>
     (0x09 \<le> uint c \<and> uint c \<le> 0x0D) \<or> (0x2000 \<le> uint c \<and> uint c \<le> 0x200A)
     \<or> uint c \<in> {0x20, 0xA0, 0x1680, 0x2028, 0x2029, 0x202F, 0x205F, 0x3000, 0xFEFF}"

definition line_terminator :: char_class where
  \<comment> \<open>line feed, carriage return, line separator, paragraph separator\<close>
  "line_terminator c \<longleftrightarrow> uint c \<in> {0x0A, 0x0D, 0x2028, 0x2029}"

definition cls_dot :: char_class where
  \<comment> \<open>\<^verbatim>\<open>.\<close> without the \<^verbatim>\<open>s\<close> flag: any code unit but a line terminator\<close>
  "cls_dot c \<longleftrightarrow> \<not> line_terminator c"

definition cls_name :: char_class where          \<comment> \<open>\<^verbatim>\<open>[a-zA-Z\s]\<close>\<close>
  "cls_name c \<longleftrightarrow> cls_lower c \<or> cls_upper c \<or> cls_space c"

definition cls_password :: char_class where      \<comment> \<open>\<^verbatim>\<open>[A-Za-z\d@$!%*?&]\<close>\<close>
  "cls_password c \<longleftrightarrow> cls_upper c \<or> cls_lower c \<or> cls_digit c \<or> cls_special c"

datatype regex_item =
    Bol                            \<comment> \<open>\<^verbatim>\<open>^\<close>\<close>
  | Eol                            \<comment> \<open>\<^verbatim>\<open>$\<close>\<close>
  | Cls char_class                 \<comment> \<open>one code unit of a class\<close>
  | Star char_class                \<comment> \<open>\<^verbatim>\<open>c*\<close>\<close>
  | Plus char_class                \<comment> \<open>\<^verbatim>\<open>c+\<close>\<close>
  | Rep nat char_class             \<comment> \<open>\<^verbatim>\<open>c{n}\<close>\<close>
  | Look "regex_item list"         \<comment> \<open>\<^verbatim>\<open>(?=...)\<close>\<close>

text \<open>
  \<open>match_here r n s\<close>: the items \<open>r\<close> match some prefix of \<open>s\<close>, the rest of the input
  after its first \<open>n\<close> code units.  None of the literals has the \<^verbatim>\<open>m\<close> flag, so
  \<^verbatim>\<open>^\<close> holds at offset 0 only and \<^verbatim>\<open>$\<close> at the end of the input only.
\<close>

fun match_here :: "regex_item list \<Rightarrow> nat \<Rightarrow> js_string \<Rightarrow> bool" where
  "match_here [] n s = True"
| "match_here (Bol # r) n s = (n = 0 \<and> match_here r n s)"
| "match_here (Eol # r) n s = (s = [] \<and> match_here r n s)"
| "match_here (Cls p # r) n [] = False"
| "match_here (Cls p # r) n (c # cs) = (p c \<and> match_here r (Suc n) cs)"
| "match_here (Star p # r) n [] = match_here r n []"
| "match_here (Star p # r) n (c # cs) =
     ((p c \<and> match_here (Star p # r) (Suc n) cs) \<or> match_here r n (c # cs))"
| "match_here (Plus p # r) n [] = False"
| "match_here (Plus p # r) n (c # cs) = (p c \<and> match_here (Star p # r) (Suc n) cs)"
| "match_here (Rep 0 p # r) n s = match_here r n s"
| "match_here (Rep (Suc k) p # r) n [] = False"
| "match_here (Rep (Suc k) p # r) n (c # cs) = (p c \<and> match_here (Rep k p # r) (Suc n) cs)"
| "match_here (Look l # r) n s = (match_here l n s \<and> match_here r n s)"

text \<open>\<^verbatim>\<open>regex.test(value)\<close>, as Joi's pattern rule calls it: a match may start at any offset.\<close>

fun search_from :: "regex_item list \<Rightarrow> nat \<Rightarrow> js_string \<Rightarrow> bool" where
  "search_from r n [] = match_here r n []"
| "search_from r n (c # cs) = (match_here r n (c # cs) \<or> search_from r (Suc n) cs)"

definition regex_test :: "regex_item list \<Rightarrow> js_string \<Rightarrow> bool" where
  "regex_test r s = search_from r 0 s"

definition name_pattern :: "regex_item list" where
  \<comment> \<open>\<^verbatim>\<open>/^[a-zA-Z\s]+$/\<close>\<close>
  "name_pattern = [Bol, Plus cls_name, Eol]"

definition phone_pattern :: "regex_item list" where
  \<comment> \<open>\<^verbatim>\<open>/^[0-9]{10}$/\<close>\<close>
  "phone_pattern = [Bol, Rep 10 cls_digit, Eol]"

definition password_pattern :: "regex_item list" where
  \<comment> \<open>\<^verbatim>\<open>/^(?=.*[a-z])(?=.*[A-Z])(?=.*\d)(?=.*[@$!%*?&])[A-Za-z\d@$!%*?&]/\<close>\<close>
  "password_pattern =
     [Bol,
      Look [Star cls_dot, Cls cls_lower],
      Look [Star cls_dot, Cls cls_upper],
      Look [Star cls_dot, Cls cls_digit],
      Look [Star cls_dot, Cls cls_special],
      Cls cls_password]"

section \<open>JSON values and the Joi schema\<close>

text \<open>
  A request body is a parsed JSON object with scalar members: a list of key/value pairs read
  by key.  A property that is absent reads as \<^verbatim>\<open>undefined\<close>, here \<^const>\<open>None\<close>.  The
  keys are only ever compared with the field names of the sources.
\<close>

datatype jvalue = JString js_string | JNumber int | JBool bool | JNull

type_synonym json_object = "(string \<times> jvalue) list"

definition js_get :: "json_object \<Rightarrow> string \<Rightarrow> jvalue option" where
  "js_get obj k = map_of obj k"

text \<open>
  The part of Joi (version 17) that \<^verbatim>\<open>registrationSchema\<close> exercises.  For one key of an
  object schema Joi checks, in this order: presence (\<^verbatim>\<open>any.required\<close>, which ends the
  key), the allowed values of \<^verbatim>\<open>valid(...)\<close> (a hit ends the key without error, a miss
  reports \<^verbatim>\<open>any.only\<close>), the base type (for a string schema \<^verbatim>\<open>string.base\<close> and
  \<^verbatim>\<open>string.empty\<close>; a base error ends the key), and then the chained rules one after the
  other.  With \<^verbatim>\<open>abortEarly: false\<close> every report is kept; with \<^verbatim>\<open>abortEarly: true\<close>
  validation returns at the first one.
\<close>

datatype joi_code =
    Any_required | Any_only | String_base | String_empty
  | String_min | String_max | String_pattern_base | String_email | Object_unknown

datatype string_rule = Min nat | Max nat | Pattern "regex_item list" | Email

record string_schema =
  rules :: "string_rule list"
  only_ref :: "string option"               \<comment> \<open>\<^verbatim>\<open>.valid(Joi.ref(key))\<close>\<close>
  required :: bool                          \<comment> \<open>\<^verbatim>\<open>.required()\<close>\<close>
  messages :: "(joi_code \<times> string) list"    \<comment> \<open>\<^verbatim>\<open>.messages({...})\<close>\<close>

record detail =
  d_path :: string
  d_type :: joi_code
  d_message :: string

definition joi_template :: "joi_code \<Rightarrow> string" where
  \<comment> \<open>Joi's own message templates, after the quoted label.  The schema overrides every code
      but \<^verbatim>\<open>string.base\<close>, \<^verbatim>\<open>string.empty\<close> and \<^verbatim>\<open>object.unknown\<close>, so the templates
      with a placeholder are never rendered and their placeholders are left as they are\<close>
  "joi_template c =
     (case c of
        Any_required \<Rightarrow> '' is required''
      | Any_only \<Rightarrow> '' must be {{#valids}}''
      | String_base \<Rightarrow> '' must be a string''
      | String_empty \<Rightarrow> '' is not allowed to be empty''
      | String_min \<Rightarrow> '' length must be at least {{#limit}} characters long''
      | String_max \<Rightarrow> '' length must be less than or equal to {{#limit}} characters long''
      | String_pattern_base \<Rightarrow> '' with value {:[.]} fails to match the required pattern: {{#regex}}''
      | String_email \<Rightarrow> '' must be a valid email''
      | Object_unknown \<Rightarrow> '' is not allowed'')"

definition create_error :: "(joi_code \<times> string) list \<Rightarrow> string \<Rightarrow> joi_code \<Rightarrow> detail" where
  "create_error msgs key c =
     \<lparr>d_path = key, d_type = c,
      d_message = (case map_of msgs c of
                     Some m \<Rightarrow> m
                   | None \<Rightarrow> CHR 0x22 # key @ CHR 0x22 # joi_template c)\<rparr>"

text \<open>
  One chained rule on a string value.  Joi's \<^verbatim>\<open>email()\<close> rule is decided by an address
  parser outside this repository; it is the parameter \<open>is_email\<close>.
\<close>

fun rule_ok :: "(js_string \<Rightarrow> bool) \<Rightarrow> string_rule \<Rightarrow> js_string \<Rightarrow> bool" where
  "rule_ok is_email (Min n) s = (n \<le> length s)"
| "rule_ok is_email (Max n) s = (length s \<le> n)"
| "rule_ok is_email (Pattern r) s = regex_test r s"
| "rule_ok is_email Email s = is_email s"

fun rule_code :: "string_rule \<Rightarrow> joi_code" where
  "rule_code (Min n) = String_min"
| "rule_code (Max n) = String_max"
| "rule_code (Pattern r) = String_pattern_base"
| "rule_code Email = String_email"

fun joi_rules ::
  "(js_string \<Rightarrow> bool) \<Rightarrow> (joi_code \<times> string) list \<Rightarrow> string \<Rightarrow> js_string \<Rightarrow> string_rule list
     \<Rightarrow> detail list"
where
  "joi_rules is_email msgs key s [] = []"
| "joi_rules is_email msgs key s (r # rs) =
     (if rule_ok is_email r s then joi_rules is_email msgs key s rs
      else create_error msgs key (rule_code r) # joi_rules is_email msgs key s rs)"

definition joi_base :: "(js_string \<Rightarrow> bool) \<Rightarrow> string_schema \<Rightarrow> string \<Rightarrow> jvalue \<Rightarrow> detail list" where
  "joi_base is_email sch key v =
     (case v of
        JString s \<Rightarrow>
          if s = [] then [create_error (messages sch) key String_empty]
          else joi_rules is_email (messages sch) key s (rules sch)
      | _ \<Rightarrow> [create_error (messages sch) key String_base])"

definition joi_key :: "(js_string \<Rightarrow> bool) \<Rightarrow> json_object \<Rightarrow> string \<times> string_schema \<Rightarrow> detail list" where
  "joi_key is_email obj ks =
     (let key = fst ks; sch = snd ks in
      case js_get obj key of
        None \<Rightarrow> if required sch then [create_error (messages sch) key Any_required] else []
      | Some v \<Rightarrow>
          (case only_ref sch of
             None \<Rightarrow> joi_base is_email sch key v
           | Some r \<Rightarrow>
               if js_get obj r = Some v then []
               else create_error (messages sch) key Any_only # joi_base is_email sch key v))"

record validate_options =
  abortEarly :: bool
  stripUnknown :: bool

text \<open>
  \<^verbatim>\<open>schema.validate(value, options)\<close> for an object schema: the report list (empty for
  \<^verbatim>\<open>error === undefined\<close>) and the validated value.  The keys of the schema are visited in
  the order they are declared; unknown keys come last and are either removed from the value
  or reported.  The argument itself is not changed.
\<close>

definition joi_object_validate ::
  "(js_string \<Rightarrow> bool) \<Rightarrow> (string \<times> string_schema) list \<Rightarrow> json_object \<Rightarrow> validate_options
     \<Rightarrow> detail list \<times> json_object"
where
  "joi_object_validate is_email schema obj opts =
     (let known = concat (map (joi_key is_email obj) schema);
          unknown = (if stripUnknown opts then []
                     else map (\<lambda>k. create_error [] k Object_unknown)
                            (filter (\<lambda>k. k \<notin> set (map fst schema)) (map fst obj)));
          details = known @ unknown;
          val = (if stripUnknown opts then AList.restrict (set (map fst schema)) obj else obj)
      in (if abortEarly opts then take 1 details else details, val))"

definition firstName_schema :: string_schema where
  "firstName_schema =
     \<lparr>rules = [Min 2, Max 50, Pattern name_pattern], only_ref = None, required = True,
      messages =
        [(String_min, ''First name must be at least 2 characters long''),
         (String_max, ''First name cannot exceed 50 characters''),
         (String_pattern_base, ''First name can only contain letters and spaces''),
         (Any_required, ''First name is required'')]\<rparr>"

definition lastName_schema :: string_schema where
  "lastName_schema =
     \<lparr>rules = [Min 2, Max 50, Pattern name_pattern], only_ref = None, required = True,
      messages =
        [(String_min, ''Last name must be at least 2 characters long''),
         (String_max, ''Last name cannot exceed 50 characters''),
         (String_pattern_base, ''Last name can only contain letters and spaces''),
         (Any_required, ''Last name is required'')]\<rparr>"

definition email_schema :: string_schema where
  "email_schema =
     \<lparr>rules = [Email], only_ref = None, required = True,
      messages =
        [(String_email, ''Please enter a valid email address''),
         (Any_required, ''Email is required'')]\<rparr>"

definition phoneNo_schema :: string_schema where
  "phoneNo_schema =
     \<lparr>rules = [Pattern phone_pattern], only_ref = None, required = True,
      messages =
        [(String_pattern_base, ''Phone number must be exactly 10 digits''),
         (Any_required, ''Phone number is required'')]\<rparr>"

definition createPassword_schema :: string_schema where
  "createPassword_schema =
     \<lparr>rules = [Min 6, Max 128, Pattern password_pattern], only_ref = None, required = True,
      messages =
        [(String_min, ''Password must be at least 6 characters long''),
         (String_max, ''Password cannot exceed 128 characters''),
         (String_pattern_base,
          ''Password must contain at least one uppercase letter, one lowercase letter, one number, and one special character''),
         (Any_required, ''Password is required'')]\<rparr>"

definition confirmPassword_schema :: string_schema where
  "confirmPassword_schema =
     \<lparr>rules = [], only_ref = Some ''createPassword'', required = True,
      messages =
        [(Any_only, ''Confirm password must match the password''),
         (Any_required, ''Confirm password is required'')]\<rparr>"

definition registrationSchema :: "(string \<times> string_schema) list" where
  "registrationSchema =
     [(''firstName'', firstName_schema),
      (''lastName'', lastName_schema),
      (''email'', email_schema),
      (''phoneNo'', phoneNo_schema),
      (''createPassword'', createPassword_schema),
      (''confirmPassword'', confirmPassword_schema)]"

section \<open>Responses and the validation middleware\<close>

text \<open>An entry of \<^verbatim>\<open>errors\<close> is \<^verbatim>\<open>{field, message}\<close>; a \<^verbatim>\<open>field\<close> that is
  \<^verbatim>\<open>undefined\<close> is \<^const>\<open>None\<close>.\<close>

type_synonym field_error = "string option \<times> string"

datatype res_data = NoData | UserData json_object | UsersData "json_object list"

record response =
  status :: nat
  success :: bool
  message :: string
  errors :: "field_error list option"
  data :: res_data

datatype middleware_result = Respond response | Next json_object

definition validateRegistration :: "(js_string \<Rightarrow> bool) \<Rightarrow> json_object \<Rightarrow> middleware_result" where
  "validateRegistration is_email body =
     (let error = fst (joi_object_validate is_email registrationSchema body
                         \<lparr>abortEarly = False, stripUnknown = True\<rparr>)
      in if error \<noteq> [] then
           Respond \<lparr>status = 400, success = False, message = ''Validation failed'',
                    errors = Some (map (\<lambda>d. (Some (d_path d), d_message d)) error),
                    data = NoData\<rparr>
         else Next body)"

section \<open>The routes of \<^verbatim>\<open>routes/auth.js\<close>\<close>

text \<open>
  The routes reach the store through the model \<^verbatim>\<open>User\<close> of \<^verbatim>\<open>models/User.js\<close>.
  Its operations are the fields of \<open>user_model\<close>, over a store state \<open>'s\<close>; each one either
  returns or throws (\<^const>\<open>Inl\<close>).  A thrown value is seen by the handler through the
  properties its \<^verbatim>\<open>catch\<close> block reads.
\<close>

record js_error =
  e_name :: string                                  \<comment> \<open>\<^verbatim>\<open>error.name\<close>\<close>
  e_code :: "jvalue option"                         \<comment> \<open>\<^verbatim>\<open>error.code\<close>\<close>
  e_keyPattern :: "string list option"              \<comment> \<open>the keys of \<^verbatim>\<open>error.keyPattern\<close>\<close>
  e_errors :: "(string \<times> string) list option"      \<comment> \<open>\<^verbatim>\<open>path\<close> and \<^verbatim>\<open>message\<close> of each of \<^verbatim>\<open>error.errors\<close>\<close>

record 's user_model =
  User_findOne :: "'s \<Rightarrow> jvalue option \<Rightarrow> jvalue option \<Rightarrow> js_error + json_object option"
    \<comment> \<open>\<^verbatim>\<open>User.findOne({$or: [{email}, {phoneNo}]})\<close>\<close>
  User_save :: "'s \<Rightarrow> json_object \<Rightarrow> (js_error + json_object) \<times> 's"
    \<comment> \<open>\<^verbatim>\<open>new User(fields).save()\<close>: the saved document or the error, and the store after it\<close>
  User_find :: "'s \<Rightarrow> js_error + json_object list"
    \<comment> \<open>\<^verbatim>\<open>User.find()\<close>\<close>
  User_toJSON :: "json_object \<Rightarrow> json_object"
    \<comment> \<open>what \<^verbatim>\<open>res.json\<close> serialises of a document\<close>

text \<open>A handler either sends a response or lets an exception escape.\<close>

datatype outcome = Sent response | Unhandled string

definition register_catch :: "js_error \<Rightarrow> outcome" where
  "register_catch error =
     (if e_name error = ''ValidationError'' then
        (case e_errors error of
           None \<Rightarrow> Unhandled ''TypeError''
         | Some errs \<Rightarrow>
             Sent \<lparr>status = 400, success = False, message = ''Validation failed'',
                   errors = Some (map (\<lambda>err. (Some (fst err), snd err)) errs),
                   data = NoData\<rparr>)
      else if e_code error = Some (JNumber 11000) then
        (case e_keyPattern error of
           None \<Rightarrow> Unhandled ''TypeError''
         | Some ks \<Rightarrow>
             (let field = (case ks of [] \<Rightarrow> None | k # _ \<Rightarrow> Some k) in
              Sent \<lparr>status = 400, success = False, message = ''User already exists'',
                    errors = Some [(field,
                      (case field of None \<Rightarrow> ''undefined'' | Some k \<Rightarrow> k)
                        @ '' is already registered'')],
                    data = NoData\<rparr>))
      else
        Sent \<lparr>status = 500, success = False, message = ''Internal server error'',
              errors = Some [(Some ''server'', ''Something went wrong. Please try again later.'')],
              data = NoData\<rparr>)"

text \<open>The object literal given to \<^verbatim>\<open>new User\<close>; a member that is \<^verbatim>\<open>undefined\<close> is left out.\<close>

definition new_User :: "json_object \<Rightarrow> json_object" where
  "new_User body =
     List.map_filter (\<lambda>(k, src). map_option (Pair k) (js_get body src))
       [(''firstName'', ''firstName''), (''lastName'', ''lastName''), (''email'', ''email''),
        (''phoneNo'', ''phoneNo''), (''password'', ''createPassword'')]"

definition register_handler :: "'s user_model \<Rightarrow> 's \<Rightarrow> json_object \<Rightarrow> outcome \<times> 's" where
  "register_handler User st body =
     (let email = js_get body ''email''; phoneNo = js_get body ''phoneNo'' in
      case User_findOne User st email phoneNo of
        Inl error \<Rightarrow> (register_catch error, st)
      | Inr (Some existingUser) \<Rightarrow>
          (Sent \<lparr>status = 400, success = False, message = ''User already exists'',
                 errors = Some [(if js_get existingUser ''email'' = email
                                 then (Some ''email'', ''Email is already registered'')
                                 else (Some ''phoneNo'', ''Phone number is already registered''))],
                 data = NoData\<rparr>, st)
      | Inr None \<Rightarrow>
          (case User_save User st (new_User body) of
             (Inl error, st') \<Rightarrow> (register_catch error, st')
           | (Inr user, st') \<Rightarrow>
               (Sent \<lparr>status = 201, success = True, message = ''User registered successfully'',
                      errors = None, data = UserData (User_toJSON User user)\<rparr>, st')))"

text \<open>\<^verbatim>\<open>router.post('/register', validateRegistration, handler)\<close>.\<close>

definition post_register ::
  "(js_string \<Rightarrow> bool) \<Rightarrow> 's user_model \<Rightarrow> 's \<Rightarrow> json_object \<Rightarrow> outcome \<times> 's"
where
  "post_register is_email User st body =
     (case validateRegistration is_email body of
        Respond res \<Rightarrow> (Sent res, st)
      | Next body' \<Rightarrow> register_handler User st body')"

text \<open>\<^verbatim>\<open>.select('-password')\<close>: the projection that leaves one field out.\<close>

definition select_without :: "string \<Rightarrow> json_object list \<Rightarrow> json_object list" where
  "select_without k docs = map (AList.delete k) docs"

definition get_users :: "'s user_model \<Rightarrow> 's \<Rightarrow> outcome \<times> 's" where
  "get_users User st =
     (case User_find User st of
        Inl error \<Rightarrow>
          (Sent \<lparr>status = 500, success = False, message = ''Internal server error'',
                 errors = None, data = NoData\<rparr>, st)
      | Inr users \<Rightarrow>
          (Sent \<lparr>status = 200, success = True, message = ''Users retrieved successfully'',
                 errors = None, data = UsersData (select_without ''password'' users)\<rparr>, st))"

section \<open>The user record store\<close>

text \<open>
  The file \<^verbatim>\<open>models/User.js\<close> is not among the sources.  The store below follows
  sections 3 and 4.2 of the specification: one collection of user documents, unique in email
  and in phone number, with the password hashed before it is stored and left out of what is
  serialised.
\<close>

record store =
  users :: "json_object list"     \<comment> \<open>the documents, in insertion order\<close>
  tick :: nat                     \<comment> \<open>source of identifiers and timestamps\<close>

text \<open>
  Modelled from the spec: \<^verbatim>\<open>models/User.js\<close> and its unique indexes are missing.  This is the
  ``conflict'' error of the write-time uniqueness constraint of section 4.2, in the shape the
  MongoDB driver gives it (E11000, with the keys of the violated index).
\<close>

definition duplicate_key_error :: "string list \<Rightarrow> js_error" where
  "duplicate_key_error ks =
     \<lparr>e_name = ''MongoServerError'', e_code = Some (JNumber 11000),
      e_keyPattern = Some ks, e_errors = None\<rparr>"

text \<open>
  Modelled from the spec: \<^verbatim>\<open>models/User.js\<close> is missing.  This is the error for a record that does
  not fit the data model of section 3, in the shape of a Mongoose validation error.
\<close>

definition validation_error :: "(string \<times> string) list \<Rightarrow> js_error" where
  "validation_error errs =
     \<lparr>e_name = ''ValidationError'', e_code = None, e_keyPattern = None, e_errors = Some errs\<rparr>"

definition is_string :: "jvalue option \<Rightarrow> bool" where
  "is_string v = (case v of Some (JString s) \<Rightarrow> True | _ \<Rightarrow> False)"

text \<open>
  Modelled from the spec: \<^verbatim>\<open>models/User.js\<close> is missing.  This is \<open>findByEmailOrPhone\<close> of
  section 4.2, asked with the query \<^verbatim>\<open>{$or: [{email}, {phoneNo}]}\<close>.  Where one stored record
  has the email and another the phone number, step 3 of section 4.3 and section 8 let the
  email win; so the lookup returns a record with the email when there is one, and a record
  with the phone number otherwise.
\<close>

definition spec_findOne :: "store \<Rightarrow> jvalue option \<Rightarrow> jvalue option \<Rightarrow> js_error + json_object option" where
  "spec_findOne st email phoneNo =
     Inr (case List.find (\<lambda>d. email \<noteq> None \<and> js_get d ''email'' = email) (users st) of
            Some d \<Rightarrow> Some d
          | None \<Rightarrow> List.find (\<lambda>d. phoneNo \<noteq> None \<and> js_get d ''phoneNo'' = phoneNo) (users st))"

text \<open>
  Modelled from the spec: \<^verbatim>\<open>models/User.js\<close> is missing.  This is \<open>create\<close> of section 4.2: it
  refuses fields that are not strings, fails with the conflict error when the email or the phone
  number is already stored, and otherwise stores the record, with the password hashed, under
  a new identifier.  The hash function is a parameter.
\<close>

definition spec_save :: "(js_string \<Rightarrow> js_string) \<Rightarrow> store \<Rightarrow> json_object \<Rightarrow> (js_error + json_object) \<times> store" where
  "spec_save hash st obj =
     (let bad = filter (\<lambda>k. \<not> is_string (js_get obj k))
                  [''firstName'', ''lastName'', ''email'', ''phoneNo'', ''password''] in
      if bad \<noteq> [] then (Inl (validation_error (map (\<lambda>k. (k, k @ '' is invalid'')) bad)), st)
      else if \<exists>d \<in> set (users st). js_get d ''email'' = js_get obj ''email'' then
        (Inl (duplicate_key_error [''email'']), st)
      else if \<exists>d \<in> set (users st). js_get d ''phoneNo'' = js_get obj ''phoneNo'' then
        (Inl (duplicate_key_error [''phoneNo'']), st)
      else
        (let doc = [(''_id'', JNumber (int (tick st)))]
                   @ AList.delete ''password'' obj
                   @ [(''password'', (case js_get obj ''password'' of
                                       Some (JString p) \<Rightarrow> JString (hash p)
                                     | _ \<Rightarrow> JNull)),
                      (''createdAt'', JNumber (int (tick st))),
                      (''updatedAt'', JNumber (int (tick st)))]
         in (Inr doc, \<lparr>users = users st @ [doc], tick = Suc (tick st)\<rparr>)))"

text \<open>
  Modelled from the spec: \<^verbatim>\<open>models/User.js\<close> is missing.  This is \<open>listAll\<close> of section 4.2
  before its projection: every stored record.
\<close>

definition spec_find :: "store \<Rightarrow> js_error + json_object list" where
  "spec_find st = Inr (users st)"

text \<open>
  Modelled from the spec: \<^verbatim>\<open>models/User.js\<close> is missing.  Section 4.3 has the created record
  returned with the password field omitted; this is the serialisation that omits it.
\<close>

definition spec_toJSON :: "json_object \<Rightarrow> json_object" where
  "spec_toJSON doc = AList.delete ''password'' doc"

text \<open>
  Modelled from the spec: \<^verbatim>\<open>models/User.js\<close> is missing.  This is the model that the routes
  import, made of the operations above.
\<close>

definition spec_User :: "(js_string \<Rightarrow> js_string) \<Rightarrow> store user_model" where
  "spec_User hash =
     \<lparr>User_findOne = spec_findOne, User_save = spec_save hash,
      User_find = spec_find, User_toJSON = spec_toJSON\<rparr>"

section \<open>The password rule as the specification words it\<close>

text \<open>The \<^verbatim>\<open>createPassword\<close> rule in the words of section 4.1 of the specification, for
  comparison with the rule of the schema.\<close>

definition spec_createPassword_ok :: "js_string \<Rightarrow> bool" where
  "spec_createPassword_ok s \<longleftrightarrow>
     6 \<le> length s \<and> length s \<le> 128
     \<and> list_ex cls_lower s \<and> list_ex cls_upper s \<and> list_ex cls_digit s \<and> list_ex cls_special s"

section \<open>Example data\<close>

text \<open>Stand-ins for the address parser and the hash function, used where an example is run.\<close>

definition example_is_email :: "js_string \<Rightarrow> bool" where
  "example_is_email s \<longleftrightarrow> of_char CHR ''@'' \<in> set s"

definition example_hash :: "js_string \<Rightarrow> js_string" where
  "example_hash p = lit ''$2b$10$'' @ rev p"

definition jo_body :: json_object where
  "jo_body =
     [(''firstName'', JString (lit ''Jo'')), (''lastName'', JString (lit ''Doe'')),
      (''email'', JString (lit ''jo@x.com'')), (''phoneNo'', JString (lit ''1234567890'')),
      (''createPassword'', JString (lit ''Abc123!@'')), (''confirmPassword'', JString (lit ''Abc123!@''))]"

definition empty_store :: store where
  "empty_store = \<lparr>users = [], tick = 0\<rparr>"

definition blank_name_body :: json_object where
  \<comment> \<open>the example payload with an empty first name\<close>
  "blank_name_body = (''firstName'', JString []) # tl jo_body"

definition extra_body :: json_object where
  \<comment> \<open>the example payload with a seventh, unknown field\<close>
  "extra_body = jo_body @ [(''role'', JString (lit ''admin''))]"

definition bad_body :: json_object where
  \<comment> \<open>a payload that breaks several rules at once; it has no last name\<close>
  "bad_body =
     [(''firstName'', JString (lit ''1'')), (''email'', JString (lit ''jo'')),
      (''phoneNo'', JString (lit ''12'')), (''createPassword'', JString (lit ''abc'')),
      (''confirmPassword'', JString (lit ''abd''))]"

definition phone_changed_body :: json_object where
  \<comment> \<open>the example payload with another phone number\<close>
  "phone_changed_body = AList.update ''phoneNo'' (JString (lit ''0987654321'')) jo_body"

definition ann_body :: json_object where
  "ann_body =
     [(''firstName'', JString (lit ''Ann'')), (''lastName'', JString (lit ''Lee'')),
      (''email'', JString (lit ''ann@x.com'')), (''phoneNo'', JString (lit ''1111111111'')),
      (''createPassword'', JString (lit ''Abc123!@'')), (''confirmPassword'', JString (lit ''Abc123!@''))]"

definition bob_body :: json_object where
  "bob_body =
     [(''firstName'', JString (lit ''Bob'')), (''lastName'', JString (lit ''Ray'')),
      (''email'', JString (lit ''bob@x.com'')), (''phoneNo'', JString (lit ''2222222222'')),
      (''createPassword'', JString (lit ''Abc123!@'')), (''confirmPassword'', JString (lit ''Abc123!@''))]"

definition cross_body :: json_object where
  \<comment> \<open>Bob's email with Ann's phone number\<close>
  "cross_body =
     [(''firstName'', JString (lit ''Cy'')), (''lastName'', JString (lit ''Orr'')),
      (''email'', JString (lit ''bob@x.com'')), (''phoneNo'', JString (lit ''1111111111'')),
      (''createPassword'', JString (lit ''Abc123!@'')), (''confirmPassword'', JString (lit ''Abc123!@''))]"

definition ann_doc :: json_object where
  "ann_doc =
     [(''_id'', JNumber 0), (''firstName'', JString (lit ''Ann'')), (''lastName'', JString (lit ''Lee'')),
      (''email'', JString (lit ''ann@x.com'')), (''phoneNo'', JString (lit ''1111111111'')),
      (''password'', JString (example_hash (lit ''Abc123!@''))),
      (''createdAt'', JNumber 0), (''updatedAt'', JNumber 0)]"

definition bob_doc :: json_object where
  "bob_doc =
     [(''_id'', JNumber 1), (''firstName'', JString (lit ''Bob'')), (''lastName'', JString (lit ''Ray'')),
      (''email'', JString (lit ''bob@x.com'')), (''phoneNo'', JString (lit ''2222222222'')),
      (''password'', JString (example_hash (lit ''Abc123!@''))),
      (''createdAt'', JNumber 1), (''updatedAt'', JNumber 1)]"

definition ann_bob_store :: store where
  "ann_bob_store = \<lparr>users = [ann_doc, bob_doc], tick = 2\<rparr>"

definition racing_User :: "store user_model" where
  \<comment> \<open>a store in which another writer inserts the same email between the lookup and the write\<close>
  "racing_User =
     \<lparr>User_findOne = (\<lambda>st email phoneNo. Inr None),
      User_save = (\<lambda>st obj. (Inl (duplicate_key_error [''email'']), st)),
      User_find = spec_find, User_toJSON = spec_toJSON\<rparr>"

text \<open>A payload with both password fields set to one string.\<close>

definition with_password :: "js_string \<Rightarrow> json_object \<Rightarrow> json_object" where
  "with_password u body =
     AList.update ''confirmPassword'' (JString u) (AList.update ''createPassword'' (JString u) body)"

definition newline_password :: js_string where
  \<comment> \<open>\<^verbatim>\<open>A1@\<close>, a line feed, \<^verbatim>\<open>bc\<close>\<close>
  "newline_password = lit ''A1@'' @ [0x0A] @ lit ''bc''"

section \<open>The patterns, characterised\<close>

lemma search_from_Bol_Suc: "search_from (Bol # r) (Suc n) s = False"
  by (induction s arbitrary: n) simp_all

lemma regex_test_Bol: "regex_test (Bol # r) s = match_here r 0 s"
  by (cases s) (simp_all add: regex_test_def search_from_Bol_Suc)

lemma match_star_eol: "match_here [Star p, Eol] n s = list_all p s"
  by (induction s arbitrary: n) auto

lemma match_rep_eol: "match_here [Rep k p, Eol] n s = (length s = k \<and> list_all p s)"
proof (induction k arbitrary: n s)
  case 0
  then show ?case by (cases s) auto
next
  case (Suc k)
  then show ?case by (cases s) auto
qed

lemma match_star_cls:
  assumes "\<And>c. p c \<Longrightarrow> d c"
  shows "match_here [Star d, Cls p] n s = list_ex p (takeWhile d s)"
  using assms by (induction s arbitrary: n) auto

lemma name_pattern_iff: "regex_test name_pattern s = (s \<noteq> [] \<and> list_all cls_name s)"
  by (cases s) (simp_all add: name_pattern_def regex_test_Bol match_star_eol)

lemma phone_pattern_iff: "regex_test phone_pattern s = (length s = 10 \<and> list_all cls_digit s)"
  by (simp add: phone_pattern_def regex_test_Bol match_rep_eol)

lemma cls_dot_lower: "cls_lower c \<Longrightarrow> cls_dot c"
  by (auto simp: cls_lower_def cls_dot_def line_terminator_def)

lemma cls_dot_upper: "cls_upper c \<Longrightarrow> cls_dot c"
  by (auto simp: cls_upper_def cls_dot_def line_terminator_def)

lemma cls_dot_digit: "cls_digit c \<Longrightarrow> cls_dot c"
  by (auto simp: cls_digit_def cls_dot_def line_terminator_def)

lemma cls_dot_special: "cls_special c \<Longrightarrow> cls_dot c"
  by (auto simp: cls_special_def cls_dot_def line_terminator_def)

lemma password_pattern_iff:
  "regex_test password_pattern s =
     (list_ex cls_lower (takeWhile cls_dot s) \<and> list_ex cls_upper (takeWhile cls_dot s)
      \<and> list_ex cls_digit (takeWhile cls_dot s) \<and> list_ex cls_special (takeWhile cls_dot s)
      \<and> list_ex cls_password (take 1 s))"
  by (cases s)
     (auto simp: password_pattern_def regex_test_Bol match_star_cls cls_dot_lower
        cls_dot_upper cls_dot_digit cls_dot_special dest: cls_dot_lower)

section \<open>The validator\<close>

lemma joi_rules_types:
  "map d_type (joi_rules E msgs k s rs) = map rule_code (filter (\<lambda>r. \<not> rule_ok E r s) rs)"
  by (induction rs) (simp_all add: create_error_def)

lemma joi_rules_path: "d \<in> set (joi_rules E msgs k s rs) \<Longrightarrow> d_path d = k"
  by (induction rs) (auto simp: create_error_def split: if_splits)

lemma joi_base_path: "d \<in> set (joi_base E sch k v) \<Longrightarrow> d_path d = k"
  by (cases v) (auto simp: joi_base_def create_error_def dest: joi_rules_path split: if_splits)

lemma joi_key_path: "d \<in> set (joi_key E body (k, sch)) \<Longrightarrow> d_path d = k"
  by (auto simp: joi_key_def create_error_def dest: joi_base_path split: option.splits if_splits)

lemma validate_details:
  "fst (joi_object_validate E registrationSchema body \<lparr>abortEarly = False, stripUnknown = True\<rparr>)
     = concat (map (joi_key E body) registrationSchema)"
  by (simp add: joi_object_validate_def)

lemma validateRegistration_eq:
  "validateRegistration E body =
     (if concat (map (joi_key E body) registrationSchema) = [] then Next body
      else Respond \<lparr>status = 400, success = False, message = ''Validation failed'',
                    errors = Some (map (\<lambda>d. (Some (d_path d), d_message d))
                                     (concat (map (joi_key E body) registrationSchema))),
                    data = NoData\<rparr>)"
  by (simp add: validateRegistration_def validate_details)

lemma validateRegistration_Next: "validateRegistration E body = Next b \<Longrightarrow> b = body"
  by (simp add: validateRegistration_eq split: if_splits)

lemma validateRegistration_passes:
  "validateRegistration E body = Next body \<longleftrightarrow> (\<forall>ks \<in> set registrationSchema. joi_key E body ks = [])"
  by (auto simp: validateRegistration_eq)

lemma joi_key_nil_string:
  assumes "joi_key E body (k, sch) = []" "only_ref sch = None" "required sch"
  shows "\<exists>s. js_get body k = Some (JString s) \<and> s \<noteq> []"
  using assms
  by (auto simp: joi_key_def joi_base_def split: option.splits jvalue.splits if_splits)

lemma passes_strings:
  assumes "validateRegistration E body = Next body"
  shows "\<exists>f l e p w. js_get body ''firstName'' = Some (JString f)
     \<and> js_get body ''lastName'' = Some (JString l)
     \<and> js_get body ''email'' = Some (JString e)
     \<and> js_get body ''phoneNo'' = Some (JString p)
     \<and> js_get body ''createPassword'' = Some (JString w)"
proof -
  have all: "\<And>ks. ks \<in> set registrationSchema \<Longrightarrow> joi_key E body ks = []"
    using assms by (simp add: validateRegistration_passes)
  have 1: "joi_key E body (''firstName'', firstName_schema) = []"
    by (rule all) (simp add: registrationSchema_def)
  have 2: "joi_key E body (''lastName'', lastName_schema) = []"
    by (rule all) (simp add: registrationSchema_def)
  have 3: "joi_key E body (''email'', email_schema) = []"
    by (rule all) (simp add: registrationSchema_def)
  have 4: "joi_key E body (''phoneNo'', phoneNo_schema) = []"
    by (rule all) (simp add: registrationSchema_def)
  have 5: "joi_key E body (''createPassword'', createPassword_schema) = []"
    by (rule all) (simp add: registrationSchema_def)
  show ?thesis
    using joi_key_nil_string[OF 1] joi_key_nil_string[OF 2] joi_key_nil_string[OF 3]
      joi_key_nil_string[OF 4] joi_key_nil_string[OF 5]
    by (auto simp: firstName_schema_def lastName_schema_def email_schema_def phoneNo_schema_def
        createPassword_schema_def)
qed

lemma map_of_map_filter:
  "distinct (map fst ps) \<Longrightarrow>
   map_of (List.map_filter (\<lambda>(k, src). map_option (Pair k) (m src)) ps) k
     = (case map_of ps k of None \<Rightarrow> None | Some src \<Rightarrow> m src)"
proof (induction ps)
  case Nil
  then show ?case by (simp add: map_filter_simps)
next
  case (Cons a ps)
  obtain k' src' where a: "a = (k', src')" by (cases a)
  from Cons.prems have nk: "map_of ps k' = None" unfolding a
    by (simp add: map_of_eq_None_iff)
  show ?case using Cons nk unfolding a
    by (cases "m src'") (auto simp: map_filter_simps)
qed

lemma js_get_new_User:
  "js_get (new_User body) k =
     (if k = ''firstName'' then js_get body ''firstName''
      else if k = ''lastName'' then js_get body ''lastName''
      else if k = ''email'' then js_get body ''email''
      else if k = ''phoneNo'' then js_get body ''phoneNo''
      else if k = ''password'' then js_get body ''createPassword''
      else None)"
  unfolding new_User_def js_get_def
  by (subst map_of_map_filter) simp_all

lemma joi_key_agree:
  assumes "js_get body k = js_get body' k"
    and "\<And>r. only_ref sch = Some r \<Longrightarrow> js_get body r = js_get body' r"
  shows "joi_key E body (k, sch) = joi_key E body' (k, sch)"
  using assms by (simp add: joi_key_def split: option.splits)

section \<open>The password rule\<close>

lemma joi_base_createPassword:
  "joi_base E createPassword_schema k (JString s) = [] \<longleftrightarrow>
     6 \<le> length s \<and> length s \<le> 128 \<and> regex_test password_pattern s"
  by (auto simp: joi_base_def createPassword_schema_def)

lemma joi_key_createPassword:
  "joi_key E body (''createPassword'', createPassword_schema) =
     (case js_get body ''createPassword'' of
        None \<Rightarrow> [create_error (messages createPassword_schema) ''createPassword'' Any_required]
      | Some v \<Rightarrow> joi_base E createPassword_schema ''createPassword'' v)"
  by (simp add: joi_key_def createPassword_schema_def split: option.splits)

text \<open>What the schema accepts as \<^verbatim>\<open>createPassword\<close>, written out.\<close>

lemma joi_key_createPassword_iff:
  "joi_key E body (''createPassword'', createPassword_schema) = [] \<longleftrightarrow>
     (\<exists>s. js_get body ''createPassword'' = Some (JString s)
        \<and> 6 \<le> length s \<and> length s \<le> 128
        \<and> list_ex cls_password (take 1 s)
        \<and> list_ex cls_lower (takeWhile cls_dot s) \<and> list_ex cls_upper (takeWhile cls_dot s)
        \<and> list_ex cls_digit (takeWhile cls_dot s) \<and> list_ex cls_special (takeWhile cls_dot s))"
proof (cases "js_get body ''createPassword''")
  case None
  then show ?thesis by (simp add: joi_key_createPassword)
next
  case (Some v)
  show ?thesis
  proof (cases v)
    case (JString s)
    with Some show ?thesis
      by (simp add: joi_key_createPassword joi_base_createPassword password_pattern_iff) blast
  qed (use Some in \<open>simp_all add: joi_key_createPassword joi_base_def\<close>)
qed

lemma password_pattern_append:
  "regex_test password_pattern s \<Longrightarrow> regex_test password_pattern (s @ t)"
proof -
  assume a: "regex_test password_pattern s"
  then have ne: "s \<noteq> []" by (auto simp: password_pattern_iff)
  have sub: "set (takeWhile cls_dot s) \<subseteq> set (takeWhile cls_dot (s @ t))"
    by (auto simp: takeWhile_append dest: set_takeWhileD)
  from a sub ne show ?thesis
    unfolding password_pattern_iff list_ex_iff by (cases s) auto
qed

lemma js_get_update:
  "js_get (AList.update k v obj) k' = (if k' = k then Some v else js_get obj k')"
  by (simp add: js_get_def update_conv')

lemma js_get_with_password:
  "js_get (with_password u body) k =
     (if k = ''confirmPassword'' \<or> k = ''createPassword'' then Some (JString u) else js_get body k)"
  by (simp add: with_password_def js_get_update)

lemma with_password_passes:
  assumes pass: "validateRegistration E body = Next body"
    and ok: "joi_base E createPassword_schema ''createPassword'' (JString u) = []"
  shows "validateRegistration E (with_password u body) = Next (with_password u body)"
proof -
  let ?b = "with_password u body"
  have all: "\<And>ks. ks \<in> set registrationSchema \<Longrightarrow> joi_key E body ks = []"
    using pass by (simp add: validateRegistration_passes)
  have 1: "joi_key E ?b (''firstName'', firstName_schema) = []"
  proof -
    have "joi_key E ?b (''firstName'', firstName_schema) = joi_key E body (''firstName'', firstName_schema)"
      by (rule joi_key_agree) (simp_all add: js_get_with_password firstName_schema_def)
    then show ?thesis using all by (simp add: registrationSchema_def)
  qed
  have 2: "joi_key E ?b (''lastName'', lastName_schema) = []"
  proof -
    have "joi_key E ?b (''lastName'', lastName_schema) = joi_key E body (''lastName'', lastName_schema)"
      by (rule joi_key_agree) (simp_all add: js_get_with_password lastName_schema_def)
    then show ?thesis using all by (simp add: registrationSchema_def)
  qed
  have 3: "joi_key E ?b (''email'', email_schema) = []"
  proof -
    have "joi_key E ?b (''email'', email_schema) = joi_key E body (''email'', email_schema)"
      by (rule joi_key_agree) (simp_all add: js_get_with_password email_schema_def)
    then show ?thesis using all by (simp add: registrationSchema_def)
  qed
  have 4: "joi_key E ?b (''phoneNo'', phoneNo_schema) = []"
  proof -
    have "joi_key E ?b (''phoneNo'', phoneNo_schema) = joi_key E body (''phoneNo'', phoneNo_schema)"
      by (rule joi_key_agree) (simp_all add: js_get_with_password phoneNo_schema_def)
    then show ?thesis using all by (simp add: registrationSchema_def)
  qed
  have 5: "joi_key E ?b (''createPassword'', createPassword_schema) = []"
    using ok by (simp add: joi_key_createPassword js_get_with_password)
  have 6: "joi_key E ?b (''confirmPassword'', confirmPassword_schema) = []"
    by (simp add: joi_key_def confirmPassword_schema_def js_get_with_password)
  from 1 2 3 4 5 6 show ?thesis
    by (simp add: validateRegistration_passes registrationSchema_def)
qed

text \<open>
  C6.  The claim has the \<^verbatim>\<open>createPassword\<close> rule accept exactly the strings of 6 to 128
  characters that hold a lowercase letter, an uppercase letter, a digit and one of
  \<^verbatim>\<open>@$!%*?&\<close>.  The password \<^verbatim>\<open>#Abc1@\<close> is such a string, and the validator refuses the
  payload that carries it, with the message that asks for these four kinds of character.
  \<^verbatim>\<open>Password@123\<close> passes the pattern rule and \<^verbatim>\<open>password123\<close> fails it, as the claim says.
\<close>

theorem createPassword_refuses_all_four_kinds:
  "spec_createPassword_ok (lit ''#Abc1@'')
   \<and> validateRegistration example_is_email (with_password (lit ''#Abc1@'') jo_body) =
       Respond \<lparr>status = 400, success = False, message = ''Validation failed'',
                errors = Some [(Some ''createPassword'',
                  ''Password must contain at least one uppercase letter, one lowercase letter, one number, and one special character'')],
                data = NoData\<rparr>
   \<and> spec_createPassword_ok (lit ''Password@123'')
   \<and> rule_ok example_is_email (Pattern password_pattern) (lit ''Password@123'')
   \<and> \<not> spec_createPassword_ok (lit ''password123'')
   \<and> \<not> rule_ok example_is_email (Pattern password_pattern) (lit ''password123'')"
  by code_simp

text \<open>
  C10, as amended.  The pattern is anchored at the first character only.  Take a payload
  that passes validation and give it, as \<^verbatim>\<open>createPassword\<close> and \<^verbatim>\<open>confirmPassword\<close>, a
  string of 6 to 128 characters that starts with one of \<^verbatim>\<open>[A-Za-z0-9@$!%*?&]\<close> and holds,
  before its first line terminator, a lowercase letter, an uppercase letter, a digit and one
  of \<^verbatim>\<open>@$!%*?&\<close>: the payload still passes, whatever other characters the string holds,
  and it still passes with anything appended to the string, up to 128 characters.
\<close>

theorem password_checked_at_first_character_only:
  assumes pass: "validateRegistration E body = Next body"
    and len: "6 \<le> length u" "length u \<le> 128"
    and first: "list_ex cls_password (take 1 u)"
    and kinds: "list_ex cls_lower (takeWhile cls_dot u)" "list_ex cls_upper (takeWhile cls_dot u)"
      "list_ex cls_digit (takeWhile cls_dot u)" "list_ex cls_special (takeWhile cls_dot u)"
  shows "validateRegistration E (with_password u body) = Next (with_password u body)
     \<and> (\<forall>t. length (u @ t) \<le> 128 \<longrightarrow>
           validateRegistration E (with_password (u @ t) body) = Next (with_password (u @ t) body))"
proof (intro conjI allI impI)
  have pat: "regex_test password_pattern u"
    using first kinds by (simp add: password_pattern_iff)
  with len have ok: "joi_base E createPassword_schema ''createPassword'' (JString u) = []"
    by (simp add: joi_base_createPassword)
  from pass ok show "validateRegistration E (with_password u body) = Next (with_password u body)"
    by (rule with_password_passes)
  fix t assume "length (u @ t) \<le> 128"
  with len pat have "joi_base E createPassword_schema ''createPassword'' (JString (u @ t)) = []"
    by (simp add: joi_base_createPassword password_pattern_append)
  with pass show "validateRegistration E (with_password (u @ t) body) = Next (with_password (u @ t) body)"
    by (rule with_password_passes)
qed

text \<open>
  The example payload with the passwords \<^verbatim>\<open>Abc123!@#\<close> and \<^verbatim>\<open>Abc 123!@\<close>: neither
  \<^verbatim>\<open>#\<close> nor the space is in \<^verbatim>\<open>[A-Za-z0-9@$!%*?&]\<close>.
\<close>

theorem password_checked_at_first_character_only_witness:
  "validateRegistration example_is_email jo_body = Next jo_body
   \<and> list_ex (\<lambda>c. \<not> cls_password c) (lit ''Abc123!@#'')
   \<and> validateRegistration example_is_email (with_password (lit ''Abc123!@#'') jo_body)
       = Next (with_password (lit ''Abc123!@#'') jo_body)
   \<and> list_ex (\<lambda>c. \<not> cls_password c) (lit ''Abc 123!@'')
   \<and> validateRegistration example_is_email (with_password (lit ''Abc 123!@'') jo_body)
       = Next (with_password (lit ''Abc 123!@'') jo_body)
   \<and> validateRegistration example_is_email (with_password (lit ''Abc 123!@'' @ lit ''#^~'') jo_body)
       = Next (with_password (lit ''Abc 123!@'' @ lit ''#^~'') jo_body)"
proof -
  have pass: "validateRegistration example_is_email jo_body = Next jo_body"
    by code_simp
  have out: "list_ex (\<lambda>c. \<not> cls_password c) (lit ''Abc123!@#'')"
    "list_ex (\<lambda>c. \<not> cls_password c) (lit ''Abc 123!@'')"
    by code_simp+
  have a: "6 \<le> length (lit ''Abc123!@#'')" "length (lit ''Abc123!@#'') \<le> 128"
    "list_ex cls_password (take 1 (lit ''Abc123!@#''))"
    "list_ex cls_lower (takeWhile cls_dot (lit ''Abc123!@#''))"
    "list_ex cls_upper (takeWhile cls_dot (lit ''Abc123!@#''))"
    "list_ex cls_digit (takeWhile cls_dot (lit ''Abc123!@#''))"
    "list_ex cls_special (takeWhile cls_dot (lit ''Abc123!@#''))"
    by code_simp+
  have b: "6 \<le> length (lit ''Abc 123!@'')" "length (lit ''Abc 123!@'') \<le> 128"
    "list_ex cls_password (take 1 (lit ''Abc 123!@''))"
    "list_ex cls_lower (takeWhile cls_dot (lit ''Abc 123!@''))"
    "list_ex cls_upper (takeWhile cls_dot (lit ''Abc 123!@''))"
    "list_ex cls_digit (takeWhile cls_dot (lit ''Abc 123!@''))"
    "list_ex cls_special (takeWhile cls_dot (lit ''Abc 123!@''))"
    by code_simp+
  have c: "length (lit ''Abc 123!@'' @ lit ''#^~'') \<le> 128"
    by (simp add: lit_def)
  from password_checked_at_first_character_only [OF pass a]
    password_checked_at_first_character_only [OF pass b] c pass out
  show ?thesis by blast
qed

text \<open>
  C10 as stated fails: the string made of \<^verbatim>\<open>A1@\<close>, a line feed and \<^verbatim>\<open>bc\<close> starts with
  an allowed character and holds the four kinds, and so does \<^verbatim>\<open>Aa1@\<close>; the first has its
  lowercase letters behind a line terminator, the second is too short, and the example
  payload does not pass with either.
\<close>

theorem password_checked_at_first_character_only_counterexample:
  "validateRegistration example_is_email jo_body = Next jo_body
   \<and> list_ex cls_password (take 1 newline_password)
   \<and> list_ex cls_lower newline_password \<and> list_ex cls_upper newline_password
   \<and> list_ex cls_digit newline_password \<and> list_ex cls_special newline_password
   \<and> list_ex line_terminator (tl newline_password)
   \<and> validateRegistration example_is_email (with_password newline_password jo_body) =
       Respond \<lparr>status = 400, success = False, message = ''Validation failed'',
                errors = Some [(Some ''createPassword'',
                  ''Password must contain at least one uppercase letter, one lowercase letter, one number, and one special character'')],
                data = NoData\<rparr>
   \<and> list_ex cls_password (take 1 (lit ''Aa1@''))
   \<and> list_ex cls_lower (lit ''Aa1@'') \<and> list_ex cls_upper (lit ''Aa1@'')
   \<and> list_ex cls_digit (lit ''Aa1@'') \<and> list_ex cls_special (lit ''Aa1@'')
   \<and> validateRegistration example_is_email (with_password (lit ''Aa1@'') jo_body) =
       Respond \<lparr>status = 400, success = False, message = ''Validation failed'',
                errors = Some [(Some ''createPassword'',
                  ''Password must be at least 6 characters long'')],
                data = NoData\<rparr>"
  by code_simp

section \<open>Validation failures\<close>

lemma joi_key_confirm_mismatch:
  "js_get body ''confirmPassword'' \<noteq> js_get body ''createPassword''
   \<Longrightarrow> joi_key E body (''confirmPassword'', confirmPassword_schema) \<noteq> []"
  by (auto simp: joi_key_def Let_def confirmPassword_schema_def split: option.splits)

lemma post_register_invalid:
  assumes "concat (map (joi_key E body) registrationSchema) \<noteq> []"
  shows "post_register E User st body =
           (Sent \<lparr>status = 400, success = False, message = ''Validation failed'',
                  errors = Some (map (\<lambda>d. (Some (d_path d), d_message d))
                                   (concat (map (joi_key E body) registrationSchema))),
                  data = NoData\<rparr>, st)"
  using assms by (simp add: post_register_def validateRegistration_eq del: concat_eq_Nil_conv)

text \<open>
  C5.  A payload whose \<^verbatim>\<open>confirmPassword\<close> differs from its \<^verbatim>\<open>createPassword\<close> (one of them
  may be missing) gets the validation failure, with an entry for the field
  \<^verbatim>\<open>confirmPassword\<close>, and the store is left as it was, whatever the model.
\<close>

theorem confirmPassword_mismatch_rejected:
  assumes "js_get body ''confirmPassword'' \<noteq> js_get body ''createPassword''"
  shows "\<exists>errs. post_register E User st body =
           (Sent \<lparr>status = 400, success = False, message = ''Validation failed'',
                  errors = Some errs, data = NoData\<rparr>, st)
         \<and> Some ''confirmPassword'' \<in> fst ` set errs"
proof -
  let ?ds = "concat (map (joi_key E body) registrationSchema)"
  from joi_key_confirm_mismatch [OF assms]
  obtain d where d: "d \<in> set (joi_key E body (''confirmPassword'', confirmPassword_schema))"
    by (cases "joi_key E body (''confirmPassword'', confirmPassword_schema)") auto
  then have path: "d_path d = ''confirmPassword''" by (rule joi_key_path)
  from d have mem: "d \<in> set ?ds" by (simp add: registrationSchema_def)
  then have ne: "?ds \<noteq> []" by (metis empty_iff empty_set)
  have "(Some ''confirmPassword'', d_message d) \<in> set (map (\<lambda>d. (Some (d_path d), d_message d)) ?ds)"
    using mem path by force
  then have "Some ''confirmPassword'' \<in> fst ` set (map (\<lambda>d. (Some (d_path d), d_message d)) ?ds)"
    by force
  with post_register_invalid [OF ne, of User st] show ?thesis by blast
qed

text \<open>The example payload with another \<^verbatim>\<open>confirmPassword\<close>.\<close>

theorem confirmPassword_mismatch_rejected_witness:
  "js_get (AList.update ''confirmPassword'' (JString (lit ''Abc123!#'')) jo_body) ''confirmPassword''
     \<noteq> js_get (AList.update ''confirmPassword'' (JString (lit ''Abc123!#'')) jo_body) ''createPassword''
   \<and> (\<exists>errs. post_register example_is_email (spec_User example_hash) empty_store
                (AList.update ''confirmPassword'' (JString (lit ''Abc123!#'')) jo_body) =
           (Sent \<lparr>status = 400, success = False, message = ''Validation failed'',
                  errors = Some errs, data = NoData\<rparr>, empty_store)
         \<and> Some ''confirmPassword'' \<in> fst ` set errs)"
proof -
  have h: "js_get (AList.update ''confirmPassword'' (JString (lit ''Abc123!#'')) jo_body) ''confirmPassword''
     \<noteq> js_get (AList.update ''confirmPassword'' (JString (lit ''Abc123!#'')) jo_body) ''createPassword''"
    by code_simp
  from h confirmPassword_mismatch_rejected
           [where E = example_is_email and User = "spec_User example_hash" and st = empty_store, OF h]
  show ?thesis by blast
qed

text \<open>
  C3, as amended.  A payload with a violation gets the validation failure, whose entries are
  the reports of all six fields in schema order, one entry per report, and the store is left
  as it was.  For a field that holds a non-empty string every rule of the field is evaluated
  and each broken rule is reported once, in rule order.
\<close>

theorem validation_reports_every_violation:
  "(concat (map (joi_key E body) registrationSchema) \<noteq> [] \<longrightarrow>
      post_register E User st body =
        (Sent \<lparr>status = 400, success = False, message = ''Validation failed'',
               errors = Some (map (\<lambda>d. (Some (d_path d), d_message d))
                                (concat (map (joi_key E body) registrationSchema))),
               data = NoData\<rparr>, st))
   \<and> (\<forall>(k, sch) \<in> set registrationSchema. \<forall>s.
        js_get body k = Some (JString s) \<and> s \<noteq> [] \<longrightarrow>
          map (\<lambda>d. (d_path d, d_type d)) (joi_key E body (k, sch)) =
            map (Pair k)
              ((case only_ref sch of
                  None \<Rightarrow> []
                | Some r \<Rightarrow> if js_get body r = Some (JString s) then [] else [Any_only])
               @ map rule_code (filter (\<lambda>r. \<not> rule_ok E r s) (rules sch))))"
proof (intro conjI impI)
  assume "concat (map (joi_key E body) registrationSchema) \<noteq> []"
  then show "post_register E User st body =
        (Sent \<lparr>status = 400, success = False, message = ''Validation failed'',
               errors = Some (map (\<lambda>d. (Some (d_path d), d_message d))
                                (concat (map (joi_key E body) registrationSchema))),
               data = NoData\<rparr>, st)"
    by (rule post_register_invalid)
next
  have types: "map d_type (joi_key E body (k, sch)) =
            (case only_ref sch of
                  None \<Rightarrow> []
                | Some r \<Rightarrow> if js_get body r = Some (JString s) then [] else [Any_only])
               @ map rule_code (filter (\<lambda>r. \<not> rule_ok E r s) (rules sch))"
    if "js_get body k = Some (JString s)" "s \<noteq> []"
       "only_ref sch \<noteq> None \<longrightarrow> rules sch = []" for k sch s
    using that
    by (auto simp: joi_key_def joi_base_def joi_rules_types create_error_def split: option.splits)
  have paths: "map d_path (joi_key E body (k, sch)) = map (\<lambda>_. k) (joi_key E body (k, sch))" for k sch
    by (rule map_cong [OF refl]) (simp add: joi_key_path)
  have both: "map (\<lambda>d. (d_path d, d_type d)) ds = map (Pair k) cs"
    if "map d_type ds = cs" "map d_path ds = map (\<lambda>_. k) ds" for ds cs k
    using that by (induction ds arbitrary: cs) auto
  have sch: "only_ref sch \<noteq> None \<longrightarrow> rules sch = []" if "(k, sch) \<in> set registrationSchema" for k sch
    using that
    by (auto simp: registrationSchema_def firstName_schema_def lastName_schema_def email_schema_def
        phoneNo_schema_def createPassword_schema_def confirmPassword_schema_def)
  show "\<forall>(k, sch) \<in> set registrationSchema. \<forall>s.
        js_get body k = Some (JString s) \<and> s \<noteq> [] \<longrightarrow>
          map (\<lambda>d. (d_path d, d_type d)) (joi_key E body (k, sch)) =
            map (Pair k)
              ((case only_ref sch of
                  None \<Rightarrow> []
                | Some r \<Rightarrow> if js_get body r = Some (JString s) then [] else [Any_only])
               @ map rule_code (filter (\<lambda>r. \<not> rule_ok E r s) (rules sch)))"
  proof (clarify)
    fix k sch s
    assume a: "(k, sch) \<in> set registrationSchema" "js_get body k = Some (JString s)" "s \<noteq> []"
    show "map (\<lambda>d. (d_path d, d_type d)) (joi_key E body (k, sch)) =
            map (Pair k)
              ((case only_ref sch of
                  None \<Rightarrow> []
                | Some r \<Rightarrow> if js_get body r = Some (JString s) then [] else [Any_only])
               @ map rule_code (filter (\<lambda>r. \<not> rule_ok E r s) (rules sch)))"
      by (rule both [OF types [OF a(2,3) sch [OF a(1)]] paths])
  qed
qed

text \<open>A payload that breaks eight rules in five fields gets eight entries.\<close>

theorem validation_reports_every_violation_witness:
  "concat (map (joi_key example_is_email bad_body) registrationSchema) \<noteq> []
   \<and> post_register example_is_email (spec_User example_hash) empty_store bad_body =
        (Sent \<lparr>status = 400, success = False, message = ''Validation failed'',
               errors = Some
                 [(Some ''firstName'', ''First name must be at least 2 characters long''),
                  (Some ''firstName'', ''First name can only contain letters and spaces''),
                  (Some ''lastName'', ''Last name is required''),
                  (Some ''email'', ''Please enter a valid email address''),
                  (Some ''phoneNo'', ''Phone number must be exactly 10 digits''),
                  (Some ''createPassword'', ''Password must be at least 6 characters long''),
                  (Some ''createPassword'',
                   ''Password must contain at least one uppercase letter, one lowercase letter, one number, and one special character''),
                  (Some ''confirmPassword'', ''Confirm password must match the password'')],
               data = NoData\<rparr>, empty_store)
   \<and> (''firstName'', firstName_schema) \<in> set registrationSchema
   \<and> js_get bad_body ''firstName'' = Some (JString (lit ''1'')) \<and> lit ''1'' \<noteq> []
   \<and> map (\<lambda>d. (d_path d, d_type d)) (joi_key example_is_email bad_body (''firstName'', firstName_schema))
       = [(''firstName'', String_min), (''firstName'', String_pattern_base)]"
proof -
  note inst = validation_reports_every_violation
               [of example_is_email bad_body "spec_User example_hash" empty_store]
  have ne: "concat (map (joi_key example_is_email bad_body) registrationSchema) \<noteq> []"
    by code_simp
  have ev: "map (\<lambda>d. (Some (d_path d), d_message d))
              (concat (map (joi_key example_is_email bad_body) registrationSchema)) =
                 [(Some ''firstName'', ''First name must be at least 2 characters long''),
                  (Some ''firstName'', ''First name can only contain letters and spaces''),
                  (Some ''lastName'', ''Last name is required''),
                  (Some ''email'', ''Please enter a valid email address''),
                  (Some ''phoneNo'', ''Phone number must be exactly 10 digits''),
                  (Some ''createPassword'', ''Password must be at least 6 characters long''),
                  (Some ''createPassword'',
                   ''Password must contain at least one uppercase letter, one lowercase letter, one number, and one special character''),
                  (Some ''confirmPassword'', ''Confirm password must match the password'')]"
    by code_simp
  have mem: "(''firstName'', firstName_schema) \<in> set registrationSchema"
    by (simp add: registrationSchema_def)
  have val: "js_get bad_body ''firstName'' = Some (JString (lit ''1''))"
    by code_simp
  have rhs: "map (Pair ''firstName'')
              ((case only_ref firstName_schema of
                  None \<Rightarrow> []
                | Some r \<Rightarrow> if js_get bad_body r = Some (JString (lit ''1'')) then [] else [Any_only])
               @ map rule_code (filter (\<lambda>r. \<not> rule_ok example_is_email r (lit ''1'')) (rules firstName_schema)))
             = [(''firstName'', String_min), (''firstName'', String_pattern_base)]"
    by code_simp
  from inst ne have post: "post_register example_is_email (spec_User example_hash) empty_store bad_body =
        (Sent \<lparr>status = 400, success = False, message = ''Validation failed'',
               errors = Some (map (\<lambda>d. (Some (d_path d), d_message d))
                                (concat (map (joi_key example_is_email bad_body) registrationSchema))),
               data = NoData\<rparr>, empty_store)"
    by blast
  have ne1: "lit ''1'' \<noteq> []"
    by (simp add: lit_def)
  from inst mem val ne1 have "map (\<lambda>d. (d_path d, d_type d))
          (joi_key example_is_email bad_body (''firstName'', firstName_schema)) =
        map (Pair ''firstName'')
              ((case only_ref firstName_schema of
                  None \<Rightarrow> []
                | Some r \<Rightarrow> if js_get bad_body r = Some (JString (lit ''1'')) then [] else [Any_only])
               @ map rule_code (filter (\<lambda>r. \<not> rule_ok example_is_email r (lit ''1'')) (rules firstName_schema)))"
    by fastforce
  with rhs post ev ne mem val ne1 show ?thesis by simp
qed

text \<open>
  C3 as stated fails: an empty first name breaks the length rule and the pattern rule of
  \<^verbatim>\<open>firstName\<close>, and the response has the single entry of the base check, which ends the
  field before its rules are run.
\<close>

theorem validation_reports_every_violation_counterexample:
  "rules firstName_schema = [Min 2, Max 50, Pattern name_pattern]
   \<and> \<not> rule_ok example_is_email (Min 2) []
   \<and> \<not> rule_ok example_is_email (Pattern name_pattern) []
   \<and> js_get blank_name_body ''firstName'' = Some (JString [])
   \<and> validateRegistration example_is_email blank_name_body =
       Respond \<lparr>status = 400, success = False, message = ''Validation failed'',
                errors = Some [(Some ''firstName'',
                                CHR 0x22 # ''firstName'' @ CHR 0x22 # '' is not allowed to be empty'')],
                data = NoData\<rparr>"
proof (intro conjI)
  show "rules firstName_schema = [Min 2, Max 50, Pattern name_pattern]"
    by (simp add: firstName_schema_def)
  show "\<not> rule_ok example_is_email (Min 2) []" by simp
  show "\<not> rule_ok example_is_email (Pattern name_pattern) []" by code_simp
  show "js_get blank_name_body ''firstName'' = Some (JString [])" by code_simp
  show "validateRegistration example_is_email blank_name_body =
       Respond \<lparr>status = 400, success = False, message = ''Validation failed'',
                errors = Some [(Some ''firstName'',
                                CHR 0x22 # ''firstName'' @ CHR 0x22 # '' is not allowed to be empty'')],
                data = NoData\<rparr>"
    by code_simp
qed

section \<open>Unknown fields\<close>

lemma js_get_restrict: "js_get (AList.restrict A body) k = (if k \<in> A then js_get body k else None)"
  by (simp add: js_get_def restr_conv' restrict_map_def)

lemma registrationSchema_keys:
  "fst ` set registrationSchema =
     {''firstName'', ''lastName'', ''email'', ''phoneNo'', ''createPassword'', ''confirmPassword''}"
  by (simp add: registrationSchema_def)

lemma registrationSchema_refs:
  "(k, sch) \<in> set registrationSchema \<Longrightarrow> only_ref sch = Some r \<Longrightarrow> r = ''createPassword''"
  by (auto simp: registrationSchema_def firstName_schema_def lastName_schema_def email_schema_def
        phoneNo_schema_def createPassword_schema_def confirmPassword_schema_def)

lemma joi_keys_restrict:
  "map (joi_key E (AList.restrict (fst ` set registrationSchema) body)) registrationSchema
     = map (joi_key E body) registrationSchema"
proof (rule map_cong [OF refl])
  fix ks assume ks: "ks \<in> set registrationSchema"
  obtain k sch where eq: "ks = (k, sch)" by (cases ks)
  have k: "k \<in> fst ` set registrationSchema" using ks eq by force
  have cp: "''createPassword'' \<in> fst ` set registrationSchema"
    by (simp add: registrationSchema_keys)
  show "joi_key E (AList.restrict (fst ` set registrationSchema) body) ks = joi_key E body ks"
    unfolding eq
  proof (rule joi_key_agree)
    show "js_get (AList.restrict (fst ` set registrationSchema) body) k = js_get body k"
      using k by (simp add: js_get_restrict)
  next
    fix r assume "only_ref sch = Some r"
    with ks eq have "r = ''createPassword''" by (auto dest: registrationSchema_refs)
    then show "js_get (AList.restrict (fst ` set registrationSchema) body) r = js_get body r"
      using cp by (simp add: js_get_restrict)
  qed
qed

lemma new_User_agree:
  assumes "js_get b ''firstName'' = js_get b' ''firstName''"
    "js_get b ''lastName'' = js_get b' ''lastName''"
    "js_get b ''email'' = js_get b' ''email''"
    "js_get b ''phoneNo'' = js_get b' ''phoneNo''"
    "js_get b ''createPassword'' = js_get b' ''createPassword''"
  shows "new_User b = new_User b'"
  using assms by (simp add: new_User_def List.map_filter_def)

lemma new_User_keys:
  "fst ` set (new_User body) \<subseteq> {''firstName'', ''lastName'', ''email'', ''phoneNo'', ''password''}"
proof
  fix k assume "k \<in> fst ` set (new_User body)"
  then have "js_get (new_User body) k \<noteq> None"
    by (simp add: js_get_def map_of_eq_None_iff)
  then show "k \<in> {''firstName'', ''lastName'', ''email'', ''phoneNo'', ''password''}"
    by (simp add: js_get_new_User split: if_splits)
qed

lemma register_handler_restrict:
  "register_handler User st (AList.restrict (fst ` set registrationSchema) body)
     = register_handler User st body"
proof -
  have 1: "new_User (AList.restrict (fst ` set registrationSchema) body) = new_User body"
    by (rule new_User_agree) (simp_all add: js_get_restrict registrationSchema_keys)
  have 2: "js_get (AList.restrict (fst ` set registrationSchema) body) ''email'' = js_get body ''email''"
    by (simp add: js_get_restrict registrationSchema_keys)
  have 3: "js_get (AList.restrict (fst ` set registrationSchema) body) ''phoneNo'' = js_get body ''phoneNo''"
    by (simp add: js_get_restrict registrationSchema_keys)
  show ?thesis
    unfolding register_handler_def 1 2 3 ..
qed

text \<open>
  C9, as amended.  No report is made on an unknown field and the unknown fields change no
  report; the value Joi returns is the payload without them.  The middleware does not take
  that value: the body goes on as it came.  The handler reads the five known fields only, so
  the response and the store are those of the payload without its unknown fields, and the
  object given to the store has none of them.
\<close>

theorem unknown_fields_ignored:
  "(\<forall>d \<in> set (fst (joi_object_validate E registrationSchema body
                      \<lparr>abortEarly = False, stripUnknown = True\<rparr>)).
       d_path d \<in> fst ` set registrationSchema)
   \<and> fst (joi_object_validate E registrationSchema body \<lparr>abortEarly = False, stripUnknown = True\<rparr>)
       = fst (joi_object_validate E registrationSchema
                (AList.restrict (fst ` set registrationSchema) body)
                \<lparr>abortEarly = False, stripUnknown = True\<rparr>)
   \<and> snd (joi_object_validate E registrationSchema body \<lparr>abortEarly = False, stripUnknown = True\<rparr>)
       = AList.restrict (fst ` set registrationSchema) body
   \<and> (\<forall>b. validateRegistration E body = Next b \<longrightarrow> b = body)
   \<and> post_register E User st body
       = post_register E User st (AList.restrict (fst ` set registrationSchema) body)
   \<and> fst ` set (new_User body) \<subseteq> {''firstName'', ''lastName'', ''email'', ''phoneNo'', ''password''}"
proof (intro conjI)
  show "\<forall>d \<in> set (fst (joi_object_validate E registrationSchema body
                      \<lparr>abortEarly = False, stripUnknown = True\<rparr>)).
       d_path d \<in> fst ` set registrationSchema"
    unfolding validate_details by (force dest: joi_key_path)
  show "fst (joi_object_validate E registrationSchema body \<lparr>abortEarly = False, stripUnknown = True\<rparr>)
       = fst (joi_object_validate E registrationSchema
                (AList.restrict (fst ` set registrationSchema) body)
                \<lparr>abortEarly = False, stripUnknown = True\<rparr>)"
    unfolding validate_details joi_keys_restrict ..
  show "snd (joi_object_validate E registrationSchema body \<lparr>abortEarly = False, stripUnknown = True\<rparr>)
       = AList.restrict (fst ` set registrationSchema) body"
    by (simp add: joi_object_validate_def)
  show "\<forall>b. validateRegistration E body = Next b \<longrightarrow> b = body"
    by (simp add: validateRegistration_Next)
  show "post_register E User st body
       = post_register E User st (AList.restrict (fst ` set registrationSchema) body)"
    unfolding post_register_def validateRegistration_eq joi_keys_restrict
    by (simp add: register_handler_restrict del: concat_eq_Nil_conv)
  show "fst ` set (new_User body) \<subseteq> {''firstName'', ''lastName'', ''email'', ''phoneNo'', ''password''}"
    by (rule new_User_keys)
qed

text \<open>The example payload with a field \<^verbatim>\<open>role\<close> is treated as the example payload.\<close>

theorem unknown_fields_ignored_witness:
  "AList.restrict (fst ` set registrationSchema) extra_body = jo_body
   \<and> validateRegistration example_is_email extra_body = Next extra_body
   \<and> post_register example_is_email (spec_User example_hash) empty_store extra_body
       = post_register example_is_email (spec_User example_hash) empty_store jo_body"
proof -
  have r: "AList.restrict (fst ` set registrationSchema) extra_body = jo_body"
    by (simp add: registrationSchema_keys extra_body_def jo_body_def AList.restrict_eq)
  have n: "validateRegistration example_is_email extra_body = Next extra_body"
    by code_simp
  from unknown_fields_ignored [of example_is_email extra_body "spec_User example_hash" empty_store]
  have "post_register example_is_email (spec_User example_hash) empty_store extra_body
       = post_register example_is_email (spec_User example_hash) empty_store
           (AList.restrict (fst ` set registrationSchema) extra_body)"
    by blast
  with r n show ?thesis by simp
qed

text \<open>
  C9 as stated fails: for the payload with the field \<^verbatim>\<open>role\<close> the normalized value is
  the example payload, and what the middleware hands on still has the field.
\<close>

theorem unknown_fields_ignored_counterexample:
  "snd (joi_object_validate example_is_email registrationSchema extra_body
          \<lparr>abortEarly = False, stripUnknown = True\<rparr>) = jo_body
   \<and> validateRegistration example_is_email extra_body = Next extra_body
   \<and> js_get extra_body ''role'' = Some (JString (lit ''admin''))
   \<and> extra_body \<noteq> jo_body"
  by code_simp

section \<open>Registration against the store\<close>

lemma js_get_Cons: "js_get ((k', v) # obj) k = (if k = k' then Some v else js_get obj k)"
  by (simp add: js_get_def)

lemma js_get_Nil: "js_get [] k = None"
  by (simp add: js_get_def)

lemma js_get_append:
  "js_get (xs @ ys) k = (case js_get xs k of None \<Rightarrow> js_get ys k | Some v \<Rightarrow> Some v)"
  by (simp add: js_get_def map_add_def split: option.splits)

lemma js_get_delete: "js_get (AList.delete k' obj) k = (if k = k' then None else js_get obj k)"
  by (auto simp: js_get_def delete_conv)

lemma spec_findOne_None:
  assumes "\<forall>d \<in> set (users st). js_get d ''email'' \<noteq> e \<and> js_get d ''phoneNo'' \<noteq> p"
  shows "spec_findOne st e p = Inr None"
  using assms by (simp add: spec_findOne_def find_None_iff split: option.splits)

lemma spec_save_fresh:
  assumes str: "js_get body ''firstName'' = Some (JString f)" "js_get body ''lastName'' = Some (JString l)"
      "js_get body ''email'' = Some (JString e)" "js_get body ''phoneNo'' = Some (JString p)"
      "js_get body ''createPassword'' = Some (JString w)"
    and fresh: "\<forall>d \<in> set (users st). js_get d ''email'' \<noteq> js_get body ''email''
                  \<and> js_get d ''phoneNo'' \<noteq> js_get body ''phoneNo''"
  shows "spec_save hash st (new_User body) =
           (Inr ([(''_id'', JNumber (int (tick st)))] @ AList.delete ''password'' (new_User body)
                 @ [(''password'', JString (hash w)),
                    (''createdAt'', JNumber (int (tick st))),
                    (''updatedAt'', JNumber (int (tick st)))]),
            \<lparr>users = users st @
                 [[(''_id'', JNumber (int (tick st)))] @ AList.delete ''password'' (new_User body)
                  @ [(''password'', JString (hash w)),
                     (''createdAt'', JNumber (int (tick st))),
                     (''updatedAt'', JNumber (int (tick st)))]],
              tick = Suc (tick st)\<rparr>)"
  using str fresh
  by (simp add: spec_save_def js_get_new_User is_string_def Let_def)

text \<open>
  C1.  A payload that passes validation, with an email and a phone number that no stored
  record has, is answered with 201 and \<^verbatim>\<open>success: true\<close>; the data is the record that was
  added to the store, without its password field and with the four submitted fields.
\<close>

theorem register_success:
  assumes pass: "validateRegistration E body = Next body"
    and fresh: "\<forall>d \<in> set (users st). js_get d ''email'' \<noteq> js_get body ''email''
                  \<and> js_get d ''phoneNo'' \<noteq> js_get body ''phoneNo''"
  shows "\<exists>user. post_register E (spec_User hash) st body =
           (Sent \<lparr>status = 201, success = True, message = ''User registered successfully'',
                  errors = None, data = UserData (AList.delete ''password'' user)\<rparr>,
            \<lparr>users = users st @ [user], tick = Suc (tick st)\<rparr>)
         \<and> js_get (AList.delete ''password'' user) ''password'' = None
         \<and> js_get (AList.delete ''password'' user) ''firstName'' = js_get body ''firstName''
         \<and> js_get (AList.delete ''password'' user) ''lastName'' = js_get body ''lastName''
         \<and> js_get (AList.delete ''password'' user) ''email'' = js_get body ''email''
         \<and> js_get (AList.delete ''password'' user) ''phoneNo'' = js_get body ''phoneNo''"
proof -
  from passes_strings [OF pass] obtain f l e p w where
    str: "js_get body ''firstName'' = Some (JString f)" "js_get body ''lastName'' = Some (JString l)"
      "js_get body ''email'' = Some (JString e)" "js_get body ''phoneNo'' = Some (JString p)"
      "js_get body ''createPassword'' = Some (JString w)"
    by blast
  let ?user = "[(''_id'', JNumber (int (tick st)))] @ AList.delete ''password'' (new_User body)
                 @ [(''password'', JString (hash w)),
                    (''createdAt'', JNumber (int (tick st))),
                    (''updatedAt'', JNumber (int (tick st)))]"
  have find: "spec_findOne st (js_get body ''email'') (js_get body ''phoneNo'') = Inr None"
    using fresh by (rule spec_findOne_None)
  have save: "spec_save hash st (new_User body) =
                (Inr ?user, \<lparr>users = users st @ [?user], tick = Suc (tick st)\<rparr>)"
    using str fresh by (rule spec_save_fresh)
  have post: "post_register E (spec_User hash) st body =
           (Sent \<lparr>status = 201, success = True, message = ''User registered successfully'',
                  errors = None, data = UserData (AList.delete ''password'' ?user)\<rparr>,
            \<lparr>users = users st @ [?user], tick = Suc (tick st)\<rparr>)"
    by (simp add: post_register_def pass register_handler_def spec_User_def find save spec_toJSON_def)
  have flds: "js_get (AList.delete ''password'' ?user) ''password'' = None"
    "js_get (AList.delete ''password'' ?user) ''firstName'' = js_get body ''firstName''"
    "js_get (AList.delete ''password'' ?user) ''lastName'' = js_get body ''lastName''"
    "js_get (AList.delete ''password'' ?user) ''email'' = js_get body ''email''"
    "js_get (AList.delete ''password'' ?user) ''phoneNo'' = js_get body ''phoneNo''"
    by (simp_all add: js_get_delete js_get_append js_get_Cons js_get_Nil js_get_new_User str)
  from post flds show ?thesis by blast
qed

text \<open>The example of section 8 of the specification, on the empty store.\<close>

theorem register_success_witness:
  "validateRegistration example_is_email jo_body = Next jo_body
   \<and> users empty_store = []
   \<and> (\<exists>user. post_register example_is_email (spec_User example_hash) empty_store jo_body =
           (Sent \<lparr>status = 201, success = True, message = ''User registered successfully'',
                  errors = None, data = UserData (AList.delete ''password'' user)\<rparr>,
            \<lparr>users = users empty_store @ [user], tick = Suc (tick empty_store)\<rparr>)
         \<and> js_get (AList.delete ''password'' user) ''password'' = None
         \<and> js_get (AList.delete ''password'' user) ''email'' = Some (JString (lit ''jo@x.com'')))"
proof -
  have pass: "validateRegistration example_is_email jo_body = Next jo_body"
    by code_simp
  have fresh: "\<forall>d \<in> set (users empty_store). js_get d ''email'' \<noteq> js_get jo_body ''email''
                  \<and> js_get d ''phoneNo'' \<noteq> js_get jo_body ''phoneNo''"
    by (simp add: empty_store_def)
  have email: "js_get jo_body ''email'' = Some (JString (lit ''jo@x.com''))"
    by code_simp
  have none: "users empty_store = []"
    by (simp add: empty_store_def)
  from register_success [OF pass fresh, of example_hash] email pass none
  show ?thesis by auto
qed

section \<open>Conflicts\<close>

lemma find_Some_holds: "List.find P xs = Some x \<Longrightarrow> x \<in> set xs \<and> P x"
  by (induction xs) (auto split: if_splits)

lemma find_Some_exists: "\<exists>x \<in> set xs. P x \<Longrightarrow> \<exists>y. List.find P xs = Some y"
  by (cases "List.find P xs") (auto simp: find_None_iff)

lemma register_handler_found:
  assumes "User_findOne User st (js_get body ''email'') (js_get body ''phoneNo'') = Inr (Some u)"
  shows "register_handler User st body =
           (Sent \<lparr>status = 400, success = False, message = ''User already exists'',
                  errors = Some [(if js_get u ''email'' = js_get body ''email''
                                  then (Some ''email'', ''Email is already registered'')
                                  else (Some ''phoneNo'', ''Phone number is already registered''))],
                  data = NoData\<rparr>, st)"
  using assms by (simp add: register_handler_def)

lemma spec_findOne_email:
  assumes "js_get body ''email'' \<noteq> None"
    and "\<exists>d \<in> set (users st). js_get d ''email'' = js_get body ''email''"
  shows "\<exists>u. spec_findOne st (js_get body ''email'') p = Inr (Some u)
             \<and> u \<in> set (users st) \<and> js_get u ''email'' = js_get body ''email''"
proof -
  let ?P = "\<lambda>d. js_get body ''email'' \<noteq> None \<and> js_get d ''email'' = js_get body ''email''"
  from assms have "\<exists>d \<in> set (users st). ?P d" by blast
  then obtain u where u: "List.find ?P (users st) = Some u"
    using find_Some_exists [of "users st" ?P] by blast
  then have "u \<in> set (users st)" "js_get u ''email'' = js_get body ''email''"
    using find_Some_holds [of ?P "users st" u] by blast+
  with u show ?thesis by (simp add: spec_findOne_def)
qed

text \<open>
  C4.  When the email of a valid payload is the email of a stored record, the registration
  fails with the conflict outcome, attributed to \<^verbatim>\<open>email\<close>, and stores nothing.  For every
  model, a record found by the lookup that has the submitted email gives the conflict on
  \<^verbatim>\<open>email\<close>, whether or not it has the submitted phone number too: email takes precedence.
\<close>

theorem duplicate_email_conflict:
  assumes pass: "validateRegistration E body = Next body"
  shows "((\<exists>d \<in> set (users st). js_get d ''email'' = js_get body ''email'') \<longrightarrow>
            post_register E (spec_User hash) st body =
              (Sent \<lparr>status = 400, success = False, message = ''User already exists'',
                     errors = Some [(Some ''email'', ''Email is already registered'')],
                     data = NoData\<rparr>, st))
       \<and> (User_findOne User st' (js_get body ''email'') (js_get body ''phoneNo'') = Inr (Some u)
            \<and> js_get u ''email'' = js_get body ''email'' \<longrightarrow>
            post_register E User st' body =
              (Sent \<lparr>status = 400, success = False, message = ''User already exists'',
                     errors = Some [(Some ''email'', ''Email is already registered'')],
                     data = NoData\<rparr>, st'))"
proof (intro conjI impI)
  assume stored: "\<exists>d \<in> set (users st). js_get d ''email'' = js_get body ''email''"
  from passes_strings [OF pass] have "js_get body ''email'' \<noteq> None" by auto
  from spec_findOne_email [OF this stored] obtain u where
    u: "spec_findOne st (js_get body ''email'') (js_get body ''phoneNo'') = Inr (Some u)"
      "js_get u ''email'' = js_get body ''email''"
    by blast
  from u(1) have "User_findOne (spec_User hash) st (js_get body ''email'') (js_get body ''phoneNo'')
                    = Inr (Some u)"
    by (simp add: spec_User_def)
  from register_handler_found [OF this] u(2)
  show "post_register E (spec_User hash) st body =
              (Sent \<lparr>status = 400, success = False, message = ''User already exists'',
                     errors = Some [(Some ''email'', ''Email is already registered'')],
                     data = NoData\<rparr>, st)"
    by (simp add: post_register_def pass)
next
  assume "User_findOne User st' (js_get body ''email'') (js_get body ''phoneNo'') = Inr (Some u)
            \<and> js_get u ''email'' = js_get body ''email''"
  then have f: "User_findOne User st' (js_get body ''email'') (js_get body ''phoneNo'') = Inr (Some u)"
    and e: "js_get u ''email'' = js_get body ''email''"
    by blast+
  from register_handler_found [OF f] e
  show "post_register E User st' body =
              (Sent \<lparr>status = 400, success = False, message = ''User already exists'',
                     errors = Some [(Some ''email'', ''Email is already registered'')],
                     data = NoData\<rparr>, st')"
    by (simp add: post_register_def pass)
qed

text \<open>
  Two registrations in sequence with the same email and different phone numbers; a payload
  with Bob's email and Ann's phone number after both have registered; and Bob's own payload
  again, for which the record found has both the email and the phone number.
\<close>

theorem duplicate_email_conflict_witness:
  "validateRegistration example_is_email phone_changed_body = Next phone_changed_body
   \<and> (\<exists>d \<in> set (users (snd (post_register example_is_email (spec_User example_hash)
                                 empty_store jo_body))).
         js_get d ''email'' = js_get phone_changed_body ''email'')
   \<and> post_register example_is_email (spec_User example_hash)
        (snd (post_register example_is_email (spec_User example_hash) empty_store jo_body))
        phone_changed_body =
       (Sent \<lparr>status = 400, success = False, message = ''User already exists'',
              errors = Some [(Some ''email'', ''Email is already registered'')], data = NoData\<rparr>,
        snd (post_register example_is_email (spec_User example_hash) empty_store jo_body))
   \<and> validateRegistration example_is_email cross_body = Next cross_body
   \<and> (\<exists>d \<in> set (users ann_bob_store). js_get d ''email'' = js_get cross_body ''email'')
   \<and> post_register example_is_email (spec_User example_hash) ann_bob_store cross_body =
       (Sent \<lparr>status = 400, success = False, message = ''User already exists'',
              errors = Some [(Some ''email'', ''Email is already registered'')], data = NoData\<rparr>,
        ann_bob_store)
   \<and> validateRegistration example_is_email bob_body = Next bob_body
   \<and> User_findOne (spec_User example_hash) ann_bob_store
        (js_get bob_body ''email'') (js_get bob_body ''phoneNo'') = Inr (Some bob_doc)
   \<and> js_get bob_doc ''email'' = js_get bob_body ''email''
   \<and> js_get bob_doc ''phoneNo'' = js_get bob_body ''phoneNo''
   \<and> post_register example_is_email (spec_User example_hash) ann_bob_store bob_body =
       (Sent \<lparr>status = 400, success = False, message = ''User already exists'',
              errors = Some [(Some ''email'', ''Email is already registered'')], data = NoData\<rparr>,
        ann_bob_store)"
proof -
  let ?st = "snd (post_register example_is_email (spec_User example_hash) empty_store jo_body)"
  have pass1: "validateRegistration example_is_email phone_changed_body = Next phone_changed_body"
    by code_simp
  have stored1: "\<exists>d \<in> set (users ?st). js_get d ''email'' = js_get phone_changed_body ''email''"
    by code_simp
  have pass2: "validateRegistration example_is_email cross_body = Next cross_body"
    by code_simp
  have stored2: "\<exists>d \<in> set (users ann_bob_store). js_get d ''email'' = js_get cross_body ''email''"
    by code_simp
  have pass3: "validateRegistration example_is_email bob_body = Next bob_body"
    by code_simp
  have found3: "User_findOne (spec_User example_hash) ann_bob_store
        (js_get bob_body ''email'') (js_get bob_body ''phoneNo'') = Inr (Some bob_doc)"
    by code_simp
  have same3: "js_get bob_doc ''email'' = js_get bob_body ''email''"
    "js_get bob_doc ''phoneNo'' = js_get bob_body ''phoneNo''"
    by code_simp+
  have r1: "post_register example_is_email (spec_User example_hash) ?st phone_changed_body =
       (Sent \<lparr>status = 400, success = False, message = ''User already exists'',
              errors = Some [(Some ''email'', ''Email is already registered'')], data = NoData\<rparr>,
        ?st)"
    by (rule mp [OF conjunct1 [OF duplicate_email_conflict [OF pass1]] stored1])
  have r2: "post_register example_is_email (spec_User example_hash) ann_bob_store cross_body =
       (Sent \<lparr>status = 400, success = False, message = ''User already exists'',
              errors = Some [(Some ''email'', ''Email is already registered'')], data = NoData\<rparr>,
        ann_bob_store)"
    by (rule mp [OF conjunct1 [OF duplicate_email_conflict [OF pass2]] stored2])
  have r3: "post_register example_is_email (spec_User example_hash) ann_bob_store bob_body =
       (Sent \<lparr>status = 400, success = False, message = ''User already exists'',
              errors = Some [(Some ''email'', ''Email is already registered'')], data = NoData\<rparr>,
        ann_bob_store)"
    by (rule mp [OF conjunct2 [OF duplicate_email_conflict [OF pass3]] conjI [OF found3 same3(1)]])
  show ?thesis
    by (intro conjI) (fact pass1 stored1 r1 pass2 stored2 r2 pass3 found3 same3 r3)+
qed

text \<open>
  C7.  When the lookup fails, or finds nothing and the write then fails, the outcome follows
  the error: a duplicate-key error (code 11000 with a key pattern) gives the conflict outcome
  naming the first key of the pattern, an error that is neither a validation error nor a
  duplicate-key error gives the generic 500, and the 500 is given for no other error.
\<close>

theorem write_failure_outcomes:
  assumes pass: "validateRegistration E body = Next body"
    and fails:
      "(User_findOne User st (js_get body ''email'') (js_get body ''phoneNo'') = Inl error \<and> st' = st)
       \<or> (User_findOne User st (js_get body ''email'') (js_get body ''phoneNo'') = Inr None
          \<and> User_save User st (new_User body) = (Inl error, st'))"
  shows "(e_name error \<noteq> ''ValidationError'' \<and> e_code error = Some (JNumber 11000)
            \<and> e_keyPattern error = Some (k # ks) \<longrightarrow>
          post_register E User st body =
            (Sent \<lparr>status = 400, success = False, message = ''User already exists'',
                   errors = Some [(Some k, k @ '' is already registered'')],
                   data = NoData\<rparr>, st'))
       \<and> (e_name error \<noteq> ''ValidationError'' \<and> e_code error \<noteq> Some (JNumber 11000) \<longrightarrow>
          post_register E User st body =
            (Sent \<lparr>status = 500, success = False, message = ''Internal server error'',
                   errors = Some [(Some ''server'', ''Something went wrong. Please try again later.'')],
                   data = NoData\<rparr>, st'))
       \<and> ((\<exists>res. post_register E User st body = (Sent res, st') \<and> status res = 500) \<longrightarrow>
          e_name error \<noteq> ''ValidationError'' \<and> e_code error \<noteq> Some (JNumber 11000))"
proof -
  have post: "post_register E User st body = (register_catch error, st')"
    using fails by (auto simp: post_register_def pass register_handler_def)
  show ?thesis
    unfolding post
    by (auto simp: register_catch_def split: option.splits list.splits)
qed

text \<open>A write that loses the race for the email of the example payload.\<close>

theorem write_failure_outcomes_witness:
  "validateRegistration example_is_email jo_body = Next jo_body
   \<and> User_findOne racing_User empty_store (js_get jo_body ''email'') (js_get jo_body ''phoneNo'')
       = Inr None
   \<and> User_save racing_User empty_store (new_User jo_body)
       = (Inl (duplicate_key_error [''email'']), empty_store)
   \<and> post_register example_is_email racing_User empty_store jo_body =
       (Sent \<lparr>status = 400, success = False, message = ''User already exists'',
              errors = Some [(Some ''email'', ''email is already registered'')],
              data = NoData\<rparr>, empty_store)"
proof -
  have pass: "validateRegistration example_is_email jo_body = Next jo_body"
    by code_simp
  have find: "User_findOne racing_User empty_store (js_get jo_body ''email'')
                (js_get jo_body ''phoneNo'') = Inr None"
    by (simp add: racing_User_def)
  have save: "User_save racing_User empty_store (new_User jo_body)
                = (Inl (duplicate_key_error [''email'']), empty_store)"
    by (simp add: racing_User_def)
  have err: "e_name (duplicate_key_error [''email'']) \<noteq> ''ValidationError''
             \<and> e_code (duplicate_key_error [''email'']) = Some (JNumber 11000)
             \<and> e_keyPattern (duplicate_key_error [''email'']) = Some (''email'' # [])"
    by (simp add: duplicate_key_error_def)
  have fails:
    "(User_findOne racing_User empty_store (js_get jo_body ''email'') (js_get jo_body ''phoneNo'')
        = Inl (duplicate_key_error [''email'']) \<and> empty_store = empty_store)
     \<or> (User_findOne racing_User empty_store (js_get jo_body ''email'') (js_get jo_body ''phoneNo'')
          = Inr None
        \<and> User_save racing_User empty_store (new_User jo_body)
          = (Inl (duplicate_key_error [''email'']), empty_store))"
    using find save by simp
  from write_failure_outcomes [OF pass fails, of "''email''" "[]"] err pass find save
  show ?thesis by simp
qed

section \<open>Listing\<close>

text \<open>
  C8.  Whatever the store holds, the listing answers with every document that
  \<^verbatim>\<open>User.find()\<close> yields, each without its password field and otherwise unchanged; for
  the store of the specification these are all stored records.  No response of the listing
  has a record with a password field.
\<close>

theorem users_listed_without_password:
  "(\<forall>docs. User_find User st = Inr docs \<longrightarrow>
      get_users User st =
        (Sent \<lparr>status = 200, success = True, message = ''Users retrieved successfully'',
               errors = None, data = UsersData (map (AList.delete ''password'') docs)\<rparr>, st))
   \<and> get_users (spec_User hash) db =
        (Sent \<lparr>status = 200, success = True, message = ''Users retrieved successfully'',
               errors = None, data = UsersData (map (AList.delete ''password'') (users db))\<rparr>,
         db)
   \<and> (\<forall>res st' ds. get_users User st = (Sent res, st') \<and> data res = UsersData ds \<longrightarrow>
        (\<forall>d \<in> set ds. js_get d ''password'' = None))
   \<and> (\<forall>d k. k \<noteq> ''password'' \<longrightarrow> js_get (AList.delete ''password'' d) k = js_get d k)"
proof (intro conjI allI impI)
  fix docs assume "User_find User st = Inr docs"
  then show "get_users User st =
        (Sent \<lparr>status = 200, success = True, message = ''Users retrieved successfully'',
               errors = None, data = UsersData (map (AList.delete ''password'') docs)\<rparr>, st)"
    by (simp add: get_users_def select_without_def)
next
  show "get_users (spec_User hash) db =
        (Sent \<lparr>status = 200, success = True, message = ''Users retrieved successfully'',
               errors = None, data = UsersData (map (AList.delete ''password'') (users db))\<rparr>,
         db)"
    by (simp add: get_users_def select_without_def spec_User_def spec_find_def)
next
  fix res st' ds
  assume "get_users User st = (Sent res, st') \<and> data res = UsersData ds"
  then show "\<forall>d \<in> set ds. js_get d ''password'' = None"
    by (cases "User_find User st")
       (auto simp: get_users_def select_without_def js_get_delete)
next
  fix d :: json_object and k :: string
  assume "k \<noteq> ''password''"
  then show "js_get (AList.delete ''password'' d) k = js_get d k"
    by (simp add: js_get_delete)
qed

text \<open>The listing after Ann and Bob have registered.\<close>

theorem users_listed_without_password_witness:
  "User_find (spec_User example_hash) ann_bob_store = Inr [ann_doc, bob_doc]
   \<and> get_users (spec_User example_hash) ann_bob_store =
        (Sent \<lparr>status = 200, success = True, message = ''Users retrieved successfully'',
               errors = None,
               data = UsersData
                 [[(''_id'', JNumber 0), (''firstName'', JString (lit ''Ann'')),
                   (''lastName'', JString (lit ''Lee'')), (''email'', JString (lit ''ann@x.com'')),
                   (''phoneNo'', JString (lit ''1111111111'')),
                   (''createdAt'', JNumber 0), (''updatedAt'', JNumber 0)],
                  [(''_id'', JNumber 1), (''firstName'', JString (lit ''Bob'')),
                   (''lastName'', JString (lit ''Ray'')), (''email'', JString (lit ''bob@x.com'')),
                   (''phoneNo'', JString (lit ''2222222222'')),
                   (''createdAt'', JNumber 1), (''updatedAt'', JNumber 1)]]\<rparr>,
         ann_bob_store)"
proof -
  have f: "User_find (spec_User example_hash) ann_bob_store = Inr [ann_doc, bob_doc]"
    by (simp add: spec_User_def spec_find_def ann_bob_store_def)
  have m: "map (AList.delete ''password'') [ann_doc, bob_doc] =
                 [[(''_id'', JNumber 0), (''firstName'', JString (lit ''Ann'')),
                   (''lastName'', JString (lit ''Lee'')), (''email'', JString (lit ''ann@x.com'')),
                   (''phoneNo'', JString (lit ''1111111111'')),
                   (''createdAt'', JNumber 0), (''updatedAt'', JNumber 0)],
                  [(''_id'', JNumber 1), (''firstName'', JString (lit ''Bob'')),
                   (''lastName'', JString (lit ''Ray'')), (''email'', JString (lit ''bob@x.com'')),
                   (''phoneNo'', JString (lit ''2222222222'')),
                   (''createdAt'', JNumber 1), (''updatedAt'', JNumber 1)]]"
    by code_simp
  from users_listed_without_password [of "spec_User example_hash" ann_bob_store] f
  have "get_users (spec_User example_hash) ann_bob_store =
        (Sent \<lparr>status = 200, success = True, message = ''Users retrieved successfully'',
               errors = None, data = UsersData (map (AList.delete ''password'') [ann_doc, bob_doc])\<rparr>,
         ann_bob_store)"
    by blast
  with f m show ?thesis by simp
qed

end
